theory Spec2Isabelle
  imports Complex_Main
begin

section \<open>Python values, exceptions and the builtins the program uses\<close>

text \<open>
  An exception is its class name together with \<open>str(e)\<close>, the text an f-string
  renders for it. Only classes deriving from \<open>Exception\<close> are values of this type:
  they are what the \<open>except Exception\<close> clauses of the trading facade catch.
\<close>

datatype exn = Exn (exn_class: string) (exn_str: string)

text \<open>
  A Python float is the real number it denotes, an infinity (\<open>True\<close> for the
  negative one) or not-a-number. Both signed zeros are \<open>Fin 0\<close>. The program only
  passes floats through, formats them and compares them with zero.
\<close>

datatype pyfloat = Fin real | Infty bool | NaN

text \<open>The objects a parsed JSON response of the exchange client can hold.\<close>

datatype pyval =
    PNone
  | PBool bool
  | PInt int
  | PFloat pyfloat
  | PStr string
  | PList "pyval list"
  | PDict "(string \<times> pyval) list"

definition quoted :: "string \<Rightarrow> string" where
  "quoted s = [CHR 0x27] @ s @ [CHR 0x27]"

fun type_name :: "pyval \<Rightarrow> string" where
  "type_name PNone = ''NoneType''"
| "type_name (PBool _) = ''bool''"
| "type_name (PInt _) = ''int''"
| "type_name (PFloat _) = ''float''"
| "type_name (PStr _) = ''str''"
| "type_name (PList _) = ''list''"
| "type_name (PDict _) = ''dict''"

text \<open>\<open>obj[key]\<close> with a string key.\<close>

fun subscript :: "pyval \<Rightarrow> string \<Rightarrow> exn + pyval" where
  "subscript (PDict kvs) k =
     (case map_of kvs k of
        Some v \<Rightarrow> Inr v
      | None \<Rightarrow> Inl (Exn ''KeyError'' (quoted k)))"
| "subscript (PList _) k =
     Inl (Exn ''TypeError'' ''list indices must be integers or slices, not str'')"
| "subscript (PStr _) k =
     Inl (Exn ''TypeError'' (''string indices must be integers, not '' @ quoted ''str''))"
| "subscript v k =
     Inl (Exn ''TypeError'' (quoted (type_name v) @ '' object is not subscriptable''))"

text \<open>\<open>obj.get(key, default)\<close>: a method of dictionaries only.\<close>

fun get_default :: "pyval \<Rightarrow> string \<Rightarrow> pyval \<Rightarrow> exn + pyval" where
  "get_default (PDict kvs) k d =
     (case map_of kvs k of Some v \<Rightarrow> Inr v | None \<Rightarrow> Inr d)"
| "get_default v k d =
     Inl (Exn ''AttributeError''
       (quoted (type_name v) @ '' object has no attribute '' @ quoted ''get''))"

text \<open>\<open>len(obj)\<close>.\<close>

fun len :: "pyval \<Rightarrow> exn + nat" where
  "len (PList xs) = Inr (length xs)"
| "len (PDict kvs) = Inr (length kvs)"
| "len (PStr s) = Inr (length s)"
| "len v = Inl (Exn ''TypeError''
     (''object of type '' @ quoted (type_name v) @ '' has no len()''))"

text \<open>Truth value of an object, as \<open>if not obj\<close> tests it.\<close>

fun truthy :: "pyval \<Rightarrow> bool" where
  "truthy PNone = False"
| "truthy (PBool b) = b"
| "truthy (PInt i) = (i \<noteq> 0)"
| "truthy (PFloat f) = (f \<noteq> Fin 0)"
| "truthy (PStr s) = (s \<noteq> [])"
| "truthy (PList xs) = (xs \<noteq> [])"
| "truthy (PDict kvs) = (kvs \<noteq> [])"

text \<open>The items a \<open>for\<close> loop or a comprehension visits.\<close>

fun iterate :: "pyval \<Rightarrow> exn + pyval list" where
  "iterate (PList xs) = Inr xs"
| "iterate (PDict kvs) = Inr (map (\<lambda>kv. PStr (fst kv)) kvs)"
| "iterate (PStr s) = Inr (map (\<lambda>c. PStr [c]) s)"
| "iterate v = Inl (Exn ''TypeError''
     (quoted (type_name v) @ '' object is not iterable''))"

text \<open>
  \<open>str.upper()\<close> on ASCII text: the letters a to z are mapped to A to Z, every other
  character is kept. Case mappings of non-ASCII characters are not modelled.
\<close>

definition upper_char :: "char \<Rightarrow> char" where
  "upper_char c =
     (case map_of (zip ''abcdefghijklmnopqrstuvwxyz'' ''ABCDEFGHIJKLMNOPQRSTUVWXYZ'') c of
        Some u \<Rightarrow> u
      | None \<Rightarrow> c)"

definition upper :: "string \<Rightarrow> string" where
  "upper s = map upper_char s"

section \<open>The remote collaborator, the logger and the console\<close>

text \<open>
  An \<open>AsyncClient\<close> is identified by the arguments it was created with. A remote call
  is the method name and its keyword arguments, in the order the source writes them.
\<close>

record client =
  c_api_key :: string
  c_secret_key :: string
  c_testnet :: bool

type_synonym kwargs = "(string \<times> pyval) list"

datatype level = INFO | WARNING | ERROR

text \<open>
  Everything the program does to the outside is an event of the trace, in order:
  a connection established by \<open>AsyncClient.create\<close>, a method invoked on the client,
  \<open>close_connection\<close> invoked on the client, a log record (the flag tells whether it was
  bound with \<open>trade=True\<close>), a line or a table printed on the console.
\<close>

datatype event =
    Connect client
  | Call client string kwargs
  | Close client
  | Log level bool string
  | Print string
  | PrintTable string "string list" "pyval list list"

text \<open>
  What the program does not define is a parameter: the formatting and parsing builtins
  of Python (\<open>str\<close> of an object, the format specs \<open>.2f\<close> and \<open>,.2f\<close>, \<open>float\<close> of a
  string) and the behaviour of the exchange client library, which may depend on
  everything that happened before. \<open>create\<close> and \<open>close_connection\<close> return the
  exception they raise, if any; \<open>respond\<close> returns the exception or the response.
\<close>

record env =
  str_of :: "pyval \<Rightarrow> string"
  fmt_2f :: "pyfloat \<Rightarrow> string"
  fmt_comma_2f :: "pyfloat \<Rightarrow> string"
  float_of_str :: "string \<Rightarrow> exn + pyfloat"
  create :: "event list \<Rightarrow> string \<Rightarrow> string \<Rightarrow> bool \<Rightarrow> exn option"
  respond :: "event list \<Rightarrow> client \<Rightarrow> string \<Rightarrow> kwargs \<Rightarrow> exn + pyval"
  close_connection :: "event list \<Rightarrow> client \<Rightarrow> exn option"

text \<open>
  \<open>float(obj)\<close>. An integer is converted to the real it denotes (the rounding to the
  nearest double is not modelled; it keeps zero and non-zero apart) unless it is too
  large for a double.
\<close>

fun float_of :: "env \<Rightarrow> pyval \<Rightarrow> exn + pyfloat" where
  "float_of E (PFloat f) = Inr f"
| "float_of E (PInt i) =
     (if \<bar>i\<bar> < 2 ^ 1024 - 2 ^ 970 then Inr (Fin (of_int i))
      else Inl (Exn ''OverflowError'' ''int too large to convert to float''))"
| "float_of E (PBool b) = Inr (Fin (if b then 1 else 0))"
| "float_of E (PStr s) = float_of_str E s"
| "float_of E v =
     Inl (Exn ''TypeError''
       (''float() argument must be a string or a real number, not '' @ quoted (type_name v)))"

section \<open>The trading facade\<close>

text \<open>The constants of \<open>binance.enums\<close> that the source imports.\<close>

definition SIDE_BUY :: string where "SIDE_BUY = ''BUY''"
definition SIDE_SELL :: string where "SIDE_SELL = ''SELL''"
definition FUTURE_ORDER_TYPE_MARKET :: string where "FUTURE_ORDER_TYPE_MARKET = ''MARKET''"
definition ORDER_TYPE_LIMIT :: string where "ORDER_TYPE_LIMIT = ''LIMIT''"
definition ORDER_TYPE_STOP_LOSS_LIMIT :: string where
  "ORDER_TYPE_STOP_LOSS_LIMIT = ''STOP_LOSS_LIMIT''"
definition TIME_IN_FORCE_GTC :: string where "TIME_IN_FORCE_GTC = ''GTC''"

text \<open>
  \<open>app.core.config.settings\<close> supplies the defaults of the constructor; that module is
  not part of the sources at hand, so the three values are a parameter.
\<close>

record settings =
  TESTNET :: bool
  API_KEY :: string
  SECRET_KEY :: string

datatype logger = Logger

record TradeService =
  logger :: logger
  testnet :: bool
  api_key :: string
  secret_key :: string
  client :: "client option"

text \<open>
  The arguments of a call \<open>TradeService(...)\<close>: each one is given or left out.
  \<open>logger\<close> has no default, so leaving it out is a \<open>TypeError\<close>.
\<close>

record init_args =
  logger_arg :: "logger option"
  testnet_arg :: "bool option"
  api_key_arg :: "string option"
  secret_key_arg :: "string option"

definition missing_logger :: exn where
  "missing_logger =
     Exn ''TypeError''
       (''TradeService.__init__() missing 1 required positional argument: ''
          @ quoted ''logger'')"

definition TradeService_init :: "settings \<Rightarrow> init_args \<Rightarrow> exn + TradeService" where
  "TradeService_init S a =
     (case logger_arg a of
        None \<Rightarrow> Inl missing_logger
      | Some lg \<Rightarrow>
          Inr \<lparr> logger = lg,
                testnet = (case testnet_arg a of Some t \<Rightarrow> t | None \<Rightarrow> TESTNET S),
                api_key = (case api_key_arg a of Some k \<Rightarrow> k | None \<Rightarrow> API_KEY S),
                secret_key = (case secret_key_arg a of Some k \<Rightarrow> k | None \<Rightarrow> SECRET_KEY S),
                client = None \<rparr>)"

text \<open>
  The state a method runs in: the facade object (which \<open>__aenter__\<close> mutates) and the
  trace of events so far. A method returns the exception it raises or its value,
  together with the state it leaves.
\<close>

record world =
  svc :: TradeService
  trace :: "event list"

type_synonym 'a outcome = "(exn + 'a) \<times> world"

definition emit :: "event \<Rightarrow> world \<Rightarrow> world" where
  "emit ev w = w\<lparr>trace := trace w @ [ev]\<rparr>"

definition log_msg :: "level \<Rightarrow> bool \<Rightarrow> string \<Rightarrow> world \<Rightarrow> world" where
  "log_msg lv tr m w = emit (Log lv tr m) w"

text \<open>
  \<open>await self.client.method(**kwargs)\<close>: with no client the attribute lookup on
  \<open>None\<close> raises; otherwise the method is invoked (an event) and the library answers.
\<close>

definition remote_call :: "env \<Rightarrow> string \<Rightarrow> kwargs \<Rightarrow> world \<Rightarrow> pyval outcome" where
  "remote_call E method kw w =
     (case client (svc w) of
        None \<Rightarrow>
          (Inl (Exn ''AttributeError''
             (quoted ''NoneType'' @ '' object has no attribute '' @ quoted method)), w)
      | Some c \<Rightarrow> (respond E (trace w) c method kw, emit (Call c method kw) w))"

text \<open>
  \<open>except Exception as e: self.logger.error(f"<prefix>{e}"); raise\<close> around a method
  body.
\<close>

definition log_and_reraise :: "string \<Rightarrow> 'a outcome \<Rightarrow> 'a outcome" where
  "log_and_reraise prefix out =
     (case out of
        (Inl e, w) \<Rightarrow> (Inl e, log_msg ERROR False (prefix @ exn_str e) w)
      | (Inr v, w) \<Rightarrow> (Inr v, w))"

definition invalid_side :: "string \<Rightarrow> exn" where
  "invalid_side side =
     Exn ''ValueError''
       (''Invalid SIDE: '' @ side @ ''. Must be '' @ quoted ''BUY'' @ '' or '' @ quoted ''SELL'')"

definition aenter :: "env \<Rightarrow> world \<Rightarrow> unit outcome" where
  "aenter E w =
     (if testnet (svc w) then
        (case create E (trace w) (api_key (svc w)) (secret_key (svc w)) True of
           Some e \<Rightarrow> (Inl e, w)
         | None \<Rightarrow>
             (let c = \<lparr>c_api_key = api_key (svc w), c_secret_key = secret_key (svc w),
                       c_testnet = True\<rparr>;
                  w1 = emit (Connect c) (w\<lparr>svc := (svc w)\<lparr>client := Some c\<rparr>\<rparr>)
              in (Inr (), log_msg INFO False ''Connected to Binance Futures TESTNET'' w1)))
      else
        (case create E (trace w) (api_key (svc w)) (secret_key (svc w)) False of
           Some e \<Rightarrow> (Inl e, w)
         | None \<Rightarrow>
             (let c = \<lparr>c_api_key = api_key (svc w), c_secret_key = secret_key (svc w),
                       c_testnet = False\<rparr>;
                  w1 = emit (Connect c) (w\<lparr>svc := (svc w)\<lparr>client := Some c\<rparr>\<rparr>)
              in (Inr (),
                  log_msg WARNING False
                    ''Connected to REAL Binance Futures - USE WITH CAUTION'' w1))))"

definition aexit :: "env \<Rightarrow> world \<Rightarrow> unit outcome" where
  "aexit E w =
     (case client (svc w) of
        None \<Rightarrow>
          (Inl (Exn ''AttributeError''
             (quoted ''NoneType'' @ '' object has no attribute '' @ quoted ''close_connection'')),
           w)
      | Some c \<Rightarrow>
          (case close_connection E (trace w) c of
             Some e \<Rightarrow> (Inl e, emit (Close c) w)
           | None \<Rightarrow> (Inr (), log_msg INFO False ''Connection Closed'' (emit (Close c) w))))"

text \<open>
  \<open>async with service: body\<close>. If \<open>__aenter__\<close> raises, the body and \<open>__aexit__\<close> do
  not run. Otherwise \<open>__aexit__\<close> runs however the body ends; it returns \<open>None\<close>, so an
  exception of the body propagates, unless \<open>__aexit__\<close> itself raises.
\<close>

definition async_with :: "env \<Rightarrow> (world \<Rightarrow> 'a outcome) \<Rightarrow> world \<Rightarrow> 'a outcome" where
  "async_with E body w =
     (case aenter E w of
        (Inl e, w1) \<Rightarrow> (Inl e, w1)
      | (Inr _, w1) \<Rightarrow>
          (case body w1 of
             (r, w2) \<Rightarrow>
               (case aexit E w2 of
                  (Inl e, w3) \<Rightarrow> (Inl e, w3)
                | (Inr _, w3) \<Rightarrow> (r, w3))))"

text \<open>Sequencing: the next step runs only if the previous one did not raise.\<close>

definition and_then :: "'a outcome \<Rightarrow> ('a \<Rightarrow> world \<Rightarrow> 'b outcome) \<Rightarrow> 'b outcome" where
  "and_then out f = (case out of (Inl e, w) \<Rightarrow> (Inl e, w) | (Inr v, w) \<Rightarrow> f v w)"

text \<open>
  The keyword arguments of the three order placements and the line each one logs
  before it calls the exchange.
\<close>

definition market_kwargs :: "string \<Rightarrow> string \<Rightarrow> pyfloat \<Rightarrow> kwargs" where
  "market_kwargs symbol side quantity =
     [(''symbol'', PStr symbol), (''side'', PStr side),
      (''type'', PStr FUTURE_ORDER_TYPE_MARKET), (''quantity'', PFloat quantity)]"

definition market_announcement :: "env \<Rightarrow> string \<Rightarrow> string \<Rightarrow> pyfloat \<Rightarrow> string" where
  "market_announcement E symbol side quantity =
     ''Placing MARKET '' @ side @ '' order: '' @ str_of E (PFloat quantity) @ '' '' @ symbol"

definition limit_kwargs :: "string \<Rightarrow> string \<Rightarrow> pyfloat \<Rightarrow> pyfloat \<Rightarrow> kwargs" where
  "limit_kwargs symbol side quantity price =
     [(''symbol'', PStr symbol), (''side'', PStr side),
      (''type'', PStr ORDER_TYPE_LIMIT), (''timeInForce'', PStr TIME_IN_FORCE_GTC),
      (''quantity'', PFloat quantity), (''price'', PFloat price)]"

definition limit_announcement ::
  "env \<Rightarrow> string \<Rightarrow> string \<Rightarrow> pyfloat \<Rightarrow> pyfloat \<Rightarrow> string" where
  "limit_announcement E symbol side quantity price =
     ''Placing LIMIT '' @ side @ '' order: '' @ str_of E (PFloat quantity) @ '' '' @ symbol
       @ '' at '' @ str_of E (PFloat price)"

definition stop_limit_kwargs ::
  "string \<Rightarrow> string \<Rightarrow> pyfloat \<Rightarrow> pyfloat \<Rightarrow> pyfloat \<Rightarrow> kwargs" where
  "stop_limit_kwargs symbol side quantity price stop_price =
     [(''symbol'', PStr symbol), (''side'', PStr side),
      (''type'', PStr ORDER_TYPE_STOP_LOSS_LIMIT), (''quantity'', PFloat quantity),
      (''price'', PFloat price), (''stopPrice'', PFloat stop_price)]"

definition stop_limit_announcement ::
  "env \<Rightarrow> string \<Rightarrow> string \<Rightarrow> pyfloat \<Rightarrow> pyfloat \<Rightarrow> pyfloat \<Rightarrow> string" where
  "stop_limit_announcement E symbol side quantity price stop_price =
     ''Placing STOP_LIMIT '' @ side @ '' order: '' @ str_of E (PFloat quantity) @ '' ''
       @ symbol @ '' at '' @ str_of E (PFloat price) @ '' and stop price at ''
       @ str_of E (PFloat stop_price)"

definition place_futures_market_order ::
  "env \<Rightarrow> string \<Rightarrow> string \<Rightarrow> pyfloat \<Rightarrow> world \<Rightarrow> pyval outcome" where
  "place_futures_market_order E symbol side quantity w =
     log_and_reraise ''Market order failed: ''
       (if side \<notin> set [SIDE_BUY, SIDE_SELL] then (Inl (invalid_side side), w)
        else
          and_then
            (remote_call E ''futures_create_order''
               (market_kwargs symbol side quantity)
               (log_msg INFO False (market_announcement E symbol side quantity) w))
            (\<lambda>order w1.
               and_then (subscript order ''orderId'', w1) (\<lambda>oid w2.
               and_then (subscript order ''status'', w2) (\<lambda>status w3.
                 (Inr order,
                  log_msg INFO True
                    (''MARKET '' @ side @ '' | '' @ symbol @ '' | Qty: ''
                       @ str_of E (PFloat quantity) @ '' | Order ID: '' @ str_of E oid
                       @ '' | Status: '' @ str_of E status) w3)))))"

definition place_futures_limit_order ::
  "env \<Rightarrow> string \<Rightarrow> string \<Rightarrow> pyfloat \<Rightarrow> pyfloat \<Rightarrow> world \<Rightarrow> pyval outcome" where
  "place_futures_limit_order E symbol side quantity price w =
     log_and_reraise ''Limit order failed: ''
       (if side \<notin> set [SIDE_BUY, SIDE_SELL] then (Inl (invalid_side side), w)
        else
          and_then
            (remote_call E ''futures_create_order''
               (limit_kwargs symbol side quantity price)
               (log_msg INFO False (limit_announcement E symbol side quantity price) w))
            (\<lambda>order w1.
               and_then (subscript order ''orderId'', w1) (\<lambda>oid w2.
               and_then (subscript order ''status'', w2) (\<lambda>status w3.
                 (Inr order,
                  log_msg INFO True
                    (''LIMIT '' @ side @ '' | '' @ symbol @ '' | Qty: ''
                       @ str_of E (PFloat quantity) @ '' | Price: $'' @ str_of E (PFloat price)
                       @ '' | Order ID: '' @ str_of E oid
                       @ '' | Status: '' @ str_of E status) w3)))))"

definition place_stop_limit_order ::
  "env \<Rightarrow> string \<Rightarrow> string \<Rightarrow> pyfloat \<Rightarrow> pyfloat \<Rightarrow> pyfloat \<Rightarrow> world \<Rightarrow> pyval outcome"
  where
  "place_stop_limit_order E symbol side quantity price stop_price w =
     log_and_reraise ''Market order failed: ''
       (if side \<notin> set [SIDE_BUY, SIDE_SELL] then (Inl (invalid_side side), w)
        else
          and_then
            (remote_call E ''create_order''
               (stop_limit_kwargs symbol side quantity price stop_price)
               (log_msg INFO False
                  (stop_limit_announcement E symbol side quantity price stop_price) w))
            (\<lambda>order w1.
               and_then (subscript order ''orderId'', w1) (\<lambda>oid w2.
               and_then (subscript order ''status'', w2) (\<lambda>status w3.
                 (Inr order,
                  log_msg INFO True
                    (''STOP_LIMIT '' @ side @ '' | '' @ symbol @ '' | Qty: ''
                       @ str_of E (PFloat quantity) @ '' | Price: '' @ str_of E (PFloat price)
                       @ '' | Stop Price : '' @ str_of E (PFloat stop_price)
                       @ ''Order ID: '' @ str_of E oid
                       @ '' | Status: '' @ str_of E status) w3)))))"

definition get_current_price :: "env \<Rightarrow> string \<Rightarrow> world \<Rightarrow> pyfloat outcome" where
  "get_current_price E symbol w =
     log_and_reraise ''Failed to get price: ''
       (and_then (remote_call E ''futures_symbol_ticker'' [(''symbol'', PStr symbol)] w)
          (\<lambda>ticker w1.
             and_then (subscript ticker ''price'', w1) (\<lambda>p w2.
             and_then (float_of E p, w2) (\<lambda>price w3.
               (Inr price,
                log_msg INFO False
                  (''Current price for '' @ symbol @ '': $'' @ str_of E (PFloat price)) w3)))))"

definition get_account_balance :: "env \<Rightarrow> world \<Rightarrow> pyfloat outcome" where
  "get_account_balance E w =
     log_and_reraise ''Failed to get balance: ''
       (and_then (remote_call E ''futures_account'' [] w)
          (\<lambda>account w1.
             and_then (subscript account ''totalWalletBalance'', w1) (\<lambda>b w2.
             and_then (float_of E b, w2) (\<lambda>balance w3.
               (Inr balance,
                log_msg INFO False
                  (''Account balance: $'' @ fmt_2f E balance @ '' USDT'') w3)))))"

definition cancel_order :: "env \<Rightarrow> string \<Rightarrow> int \<Rightarrow> world \<Rightarrow> pyval outcome" where
  "cancel_order E symbol order_id w =
     log_and_reraise ''Failed to cancel order: ''
       (and_then
          (remote_call E ''futures_cancel_order''
             [(''symbol'', PStr symbol), (''orderId'', PInt order_id)] w)
          (\<lambda>result w1.
             (Inr result,
              log_msg INFO False
                (''Order '' @ str_of E (PInt order_id) @ '' canceled successfully'') w1)))"

text \<open>An optional symbol argument: \<open>None\<close> when it is left out.\<close>

definition opt_str :: "string option \<Rightarrow> pyval" where
  "opt_str symbol = (case symbol of None \<Rightarrow> PNone | Some s \<Rightarrow> PStr s)"

definition get_open_orders :: "env \<Rightarrow> string option \<Rightarrow> world \<Rightarrow> pyval outcome" where
  "get_open_orders E symbol w =
     log_and_reraise ''Failed to get open orders: ''
       (and_then (remote_call E ''futures_get_open_orders'' [(''symbol'', opt_str symbol)] w)
          (\<lambda>orders w1.
             and_then (len orders, w1) (\<lambda>n w2.
               (Inr orders,
                log_msg INFO False
                  (''Found '' @ str_of E (PInt (int n)) @ '' open orders'') w2))))"

definition get_position_info :: "env \<Rightarrow> string option \<Rightarrow> world \<Rightarrow> pyval outcome" where
  "get_position_info E symbol w =
     log_and_reraise ''Failed to get position info: ''
       (and_then
          (remote_call E ''futures_position_information'' [(''symbol'', opt_str symbol)] w)
          (\<lambda>positions w1.
             (Inr positions,
              log_msg INFO False
                (''Position info retrieved for ''
                   @ (case symbol of
                        Some s \<Rightarrow> if s \<noteq> [] then s else ''all symbols''
                      | None \<Rightarrow> ''all symbols'')) w1)))"

section \<open>The command-line surface\<close>

record State =
  st_testnet :: bool
  st_api_key :: string
  st_secret_key :: string

definition nl :: string where
  "nl = [CHR 0x0A]"

text \<open>The check mark of the success messages, as its UTF-8 bytes.\<close>

definition check_mark :: string where
  "check_mark = [CHR 0xE2, CHR 0x9C, CHR 0x93]"

text \<open>Sequencing of computations that raise but have no effect.\<close>

definition or_raise :: "exn + 'a \<Rightarrow> ('a \<Rightarrow> exn + 'b) \<Rightarrow> exn + 'b" where
  "or_raise r f = (case r of Inl e \<Rightarrow> Inl e | Inr v \<Rightarrow> f v)"

definition key_fields :: "(string \<times> string) list" where
  "key_fields =
     [(''Order ID'', ''orderId''), (''Symbol'', ''symbol''), (''Side'', ''side''),
      (''Type'', ''type''), (''Quantity'', ''origQty''), (''Price'', ''price''),
      (''Stop Price'', ''stopPrice''), (''Status'', ''status'')]"

fun order_details :: "env \<Rightarrow> pyval \<Rightarrow> (string \<times> string) list \<Rightarrow> exn + pyval list list" where
  "order_details E order [] = Inr []"
| "order_details E order ((label, key) # rest) =
     or_raise (get_default order key (PStr ''N/A'')) (\<lambda>v.
     or_raise (order_details E order rest) (\<lambda>rows.
       Inr (if v \<noteq> PStr ''N/A'' then [PStr label, PStr (str_of E v)] # rows else rows)))"

definition display_order :: "env \<Rightarrow> pyval \<Rightarrow> world \<Rightarrow> unit outcome" where
  "display_order E order w =
     (case order_details E order key_fields of
        Inl e \<Rightarrow> (Inl e, w)
      | Inr rows \<Rightarrow> (Inr (), emit (PrintTable ''Order Details'' [''Field'', ''Value''] rows) w))"

text \<open>
  Each command builds the facade with \<open>testnet\<close>, \<open>api_key\<close> and \<open>secret_key\<close> from the
  global state and no logger, and runs its body inside \<open>async with\<close>. The body of a
  command is the block under \<open>async with\<close>; it runs in the state \<open>__aenter__\<close> left.
\<close>

definition cli_service :: "settings \<Rightarrow> State \<Rightarrow> exn + TradeService" where
  "cli_service S st =
     TradeService_init S
       \<lparr> logger_arg = None, testnet_arg = Some (st_testnet st),
         api_key_arg = Some (st_api_key st), secret_key_arg = Some (st_secret_key st) \<rparr>"

definition scoped ::
  "env \<Rightarrow> settings \<Rightarrow> State \<Rightarrow> (world \<Rightarrow> 'a outcome) \<Rightarrow> event list \<Rightarrow> (exn + 'a) \<times> event list"
  where
  "scoped E S st body tr =
     (case cli_service S st of
        Inl e \<Rightarrow> (Inl e, tr)
      | Inr s \<Rightarrow>
          (case async_with E body \<lparr>svc = s, trace = tr\<rparr> of (r, w) \<Rightarrow> (r, trace w)))"

definition market_execute ::
  "env \<Rightarrow> string \<Rightarrow> string \<Rightarrow> pyfloat \<Rightarrow> world \<Rightarrow> unit outcome" where
  "market_execute E symbol side quantity w =
     and_then (place_futures_market_order E (upper symbol) (upper side) quantity w)
       (\<lambda>order w1.
          display_order E order
            (emit (Print (nl @ ''[green]'' @ check_mark
               @ '' Market Order Placed Successfully[/green]'')) w1))"

definition market_order ::
  "env \<Rightarrow> settings \<Rightarrow> State \<Rightarrow> string \<Rightarrow> string \<Rightarrow> pyfloat \<Rightarrow> event list
     \<Rightarrow> (exn + unit) \<times> event list" where
  "market_order E S st symbol side quantity tr =
     scoped E S st (market_execute E symbol side quantity) tr"

definition limit_execute ::
  "env \<Rightarrow> string \<Rightarrow> string \<Rightarrow> pyfloat \<Rightarrow> pyfloat \<Rightarrow> world \<Rightarrow> unit outcome" where
  "limit_execute E symbol side quantity price w =
     and_then (place_futures_limit_order E (upper symbol) (upper side) quantity price w)
       (\<lambda>order w1.
          display_order E order
            (emit (Print (nl @ ''[green]'' @ check_mark
               @ '' Limit Order Placed Successfully[/green]'')) w1))"

definition limit_order ::
  "env \<Rightarrow> settings \<Rightarrow> State \<Rightarrow> string \<Rightarrow> string \<Rightarrow> pyfloat \<Rightarrow> pyfloat \<Rightarrow> event list
     \<Rightarrow> (exn + unit) \<times> event list" where
  "limit_order E S st symbol side quantity price tr =
     scoped E S st (limit_execute E symbol side quantity price) tr"

definition stop_limit_execute ::
  "env \<Rightarrow> string \<Rightarrow> string \<Rightarrow> pyfloat \<Rightarrow> pyfloat \<Rightarrow> pyfloat \<Rightarrow> world \<Rightarrow> unit outcome" where
  "stop_limit_execute E symbol side quantity price stop_price w =
     and_then
       (place_stop_limit_order E (upper symbol) (upper side) quantity price stop_price w)
       (\<lambda>order w1.
          display_order E order
            (emit (Print (nl @ ''[green]'' @ check_mark
               @ '' Stop-Limit Order Placed Successfully[/green]'')) w1))"

definition stop_limit_order ::
  "env \<Rightarrow> settings \<Rightarrow> State \<Rightarrow> string \<Rightarrow> string \<Rightarrow> pyfloat \<Rightarrow> pyfloat \<Rightarrow> pyfloat
     \<Rightarrow> event list \<Rightarrow> (exn + unit) \<times> event list" where
  "stop_limit_order E S st symbol side quantity price stop_price tr =
     scoped E S st (stop_limit_execute E symbol side quantity price stop_price) tr"

definition price_execute :: "env \<Rightarrow> string \<Rightarrow> world \<Rightarrow> unit outcome" where
  "price_execute E symbol w =
     and_then (get_current_price E (upper symbol) w)
       (\<lambda>price w1.
          (Inr (),
           emit (Print (nl @ ''[cyan]'' @ upper symbol @ '':[/cyan] [green]$''
             @ fmt_comma_2f E price @ ''[/green]'')) w1))"

definition get_price ::
  "env \<Rightarrow> settings \<Rightarrow> State \<Rightarrow> string \<Rightarrow> event list \<Rightarrow> (exn + unit) \<times> event list" where
  "get_price E S st symbol tr = scoped E S st (price_execute E symbol) tr"

definition balance_execute :: "env \<Rightarrow> world \<Rightarrow> unit outcome" where
  "balance_execute E w =
     and_then (get_account_balance E w)
       (\<lambda>balance w1.
          (Inr (),
           emit (Print (nl @ ''[cyan]Account Balance:[/cyan] [green]$''
             @ fmt_comma_2f E balance @ '' USDT[/green]'')) w1))"

definition get_balance ::
  "env \<Rightarrow> settings \<Rightarrow> State \<Rightarrow> event list \<Rightarrow> (exn + unit) \<times> event list" where
  "get_balance E S st tr = scoped E S st (balance_execute E) tr"

text \<open>\<open>symbol.upper() if symbol else None\<close> for an optional argument.\<close>

definition upper_if_given :: "string option \<Rightarrow> string option" where
  "upper_if_given symbol =
     (case symbol of
        None \<Rightarrow> None
      | Some s \<Rightarrow> if s \<noteq> [] then Some (upper s) else None)"

definition open_order_row :: "env \<Rightarrow> pyval \<Rightarrow> exn + pyval list" where
  "open_order_row E order =
     or_raise (subscript order ''orderId'') (\<lambda>oid.
     or_raise (subscript order ''symbol'') (\<lambda>sym.
     or_raise (subscript order ''side'') (\<lambda>side.
     or_raise (subscript order ''type'') (\<lambda>ty.
     or_raise (subscript order ''origQty'') (\<lambda>qty.
     or_raise (get_default order ''price'' (PStr ''N/A'')) (\<lambda>price.
       Inr [PStr (str_of E oid), sym, side, ty, PStr (str_of E qty),
            PStr (str_of E price)]))))))"

fun rows_of :: "('a \<Rightarrow> exn + 'b) \<Rightarrow> 'a list \<Rightarrow> exn + 'b list" where
  "rows_of f [] = Inr []"
| "rows_of f (x # xs) =
     or_raise (f x) (\<lambda>row. or_raise (rows_of f xs) (\<lambda>rows. Inr (row # rows)))"

definition orders_execute :: "env \<Rightarrow> string option \<Rightarrow> world \<Rightarrow> unit outcome" where
  "orders_execute E symbol w =
     and_then (get_open_orders E (upper_if_given symbol) w)
       (\<lambda>orders w1.
          if \<not> truthy orders then
            (Inr (), emit (Print (nl @ ''[yellow]No open orders found[/yellow]'')) w1)
          else
            and_then (len orders, w1) (\<lambda>n w2.
            and_then (iterate orders, w2) (\<lambda>items w3.
            and_then (rows_of (open_order_row E) items, w3) (\<lambda>rows w4.
              (Inr (),
               emit (PrintTable (''Open Orders ('' @ str_of E (PInt (int n)) @ '')'')
                 [''Order ID'', ''Symbol'', ''Side'', ''Type'', ''Quantity'', ''Price'']
                 rows) w4)))))"

definition list_orders ::
  "env \<Rightarrow> settings \<Rightarrow> State \<Rightarrow> string option \<Rightarrow> event list \<Rightarrow> (exn + unit) \<times> event list"
  where
  "list_orders E S st symbol tr = scoped E S st (orders_execute E symbol) tr"

text \<open>\<open>float(p.get("positionAmt", 0))\<close>, the amount the filter looks at.\<close>

definition position_amount :: "env \<Rightarrow> pyval \<Rightarrow> exn + pyfloat" where
  "position_amount E p =
     or_raise (get_default p ''positionAmt'' (PInt 0)) (\<lambda>v. float_of E v)"

text \<open>
  The comprehension \<open>[p for p in positions if float(p.get("positionAmt", 0)) != 0]\<close>:
  it raises at the first entry whose amount cannot be read.
\<close>

fun keep_active :: "env \<Rightarrow> pyval list \<Rightarrow> exn + pyval list" where
  "keep_active E [] = Inr []"
| "keep_active E (p # ps) =
     or_raise (position_amount E p) (\<lambda>a.
     or_raise (keep_active E ps) (\<lambda>acts.
       Inr (if a \<noteq> Fin 0 then p # acts else acts)))"

definition active_positions :: "env \<Rightarrow> pyval \<Rightarrow> exn + pyval list" where
  "active_positions E positions = or_raise (iterate positions) (keep_active E)"

fun ge_zero :: "pyfloat \<Rightarrow> bool" where
  "ge_zero (Fin r) = (0 \<le> r)"
| "ge_zero (Infty negative) = (\<not> negative)"
| "ge_zero NaN = False"

definition position_row :: "env \<Rightarrow> pyval \<Rightarrow> exn + pyval list" where
  "position_row E pos =
     or_raise (get_default pos ''unRealizedProfit'' (PInt 0)) (\<lambda>u.
     or_raise (float_of E u) (\<lambda>pnl.
       let pnl_color = (if ge_zero pnl then ''green'' else ''red'') in
       or_raise (subscript pos ''symbol'') (\<lambda>sym.
       or_raise (subscript pos ''positionAmt'') (\<lambda>amt.
       or_raise (subscript pos ''entryPrice'') (\<lambda>entry.
       or_raise (subscript pos ''markPrice'') (\<lambda>mark.
         Inr [sym, amt, entry, mark,
              PStr (''['' @ pnl_color @ '']$'' @ fmt_comma_2f E pnl
                @ ''[/'' @ pnl_color @ '']'')]))))))"

definition position_execute :: "env \<Rightarrow> string option \<Rightarrow> world \<Rightarrow> unit outcome" where
  "position_execute E symbol w =
     and_then (get_position_info E (upper_if_given symbol) w)
       (\<lambda>positions w1.
          and_then (active_positions E positions, w1) (\<lambda>active w2.
            if active = [] then
              (Inr (), emit (Print (nl @ ''[yellow]No active positions[/yellow]'')) w2)
            else
              and_then (rows_of (position_row E) active, w2) (\<lambda>rows w3.
                (Inr (),
                 emit (PrintTable ''Active Positions''
                   [''Symbol'', ''Amount'', ''Entry Price'', ''Mark Price'', ''PnL'']
                   rows) w3))))"

definition get_position ::
  "env \<Rightarrow> settings \<Rightarrow> State \<Rightarrow> string option \<Rightarrow> event list \<Rightarrow> (exn + unit) \<times> event list"
  where
  "get_position E S st symbol tr = scoped E S st (position_execute E symbol) tr"

definition cancel_execute :: "env \<Rightarrow> string \<Rightarrow> int \<Rightarrow> world \<Rightarrow> unit outcome" where
  "cancel_execute E symbol order_id w =
     and_then (cancel_order E (upper symbol) order_id w)
       (\<lambda>result w1.
          (Inr (),
           emit (Print (nl @ ''[green]'' @ check_mark @ '' Order ''
             @ str_of E (PInt order_id) @ '' canceled successfully[/green]'')) w1))"

definition cancel_order_command ::
  "env \<Rightarrow> settings \<Rightarrow> State \<Rightarrow> string \<Rightarrow> int \<Rightarrow> event list \<Rightarrow> (exn + unit) \<times> event list"
  where
  "cancel_order_command E S st symbol order_id tr =
     scoped E S st (cancel_execute E symbol order_id) tr"

section \<open>Reading a trace\<close>

fun is_call :: "event \<Rightarrow> bool" where
  "is_call (Call _ _ _) = True"
| "is_call _ = False"

definition remote_calls :: "event list \<Rightarrow> event list" where
  "remote_calls tr = filter is_call tr"

fun is_error_log :: "event \<Rightarrow> bool" where
  "is_error_log (Log ERROR _ _) = True"
| "is_error_log _ = False"

definition error_logs :: "event list \<Rightarrow> event list" where
  "error_logs tr = filter is_error_log tr"

fun is_connection_event :: "event \<Rightarrow> bool" where
  "is_connection_event (Connect _) = True"
| "is_connection_event (Close _) = True"
| "is_connection_event _ = False"

text \<open>
  The connections open after a trace: \<open>Connect\<close> opens one, \<open>Close\<close> releases one
  of that client.
\<close>

fun connection_step :: "client list \<Rightarrow> event \<Rightarrow> client list" where
  "connection_step cs (Connect c) = c # cs"
| "connection_step cs (Close c) = remove1 c cs"
| "connection_step cs _ = cs"

definition open_connections :: "event list \<Rightarrow> client list" where
  "open_connections tr = foldl connection_step [] tr"

text \<open>
  A block of code that neither replaces the facade's fields nor opens or closes a
  connection itself: whatever state it starts in, it only appends events other than
  \<open>Connect\<close> and \<open>Close\<close> to the trace.
\<close>

definition leaves_connection_alone :: "(world \<Rightarrow> 'a outcome) \<Rightarrow> bool" where
  "leaves_connection_alone body =
     (\<forall>v. svc (snd (body v)) = svc v
        \<and> (\<exists>es. trace (snd (body v)) = trace v @ es
              \<and> (\<forall>ev\<in>set es. \<not> is_connection_event ev)))"

section \<open>Concrete inputs\<close>

definition demo_client :: client where
  "demo_client = \<lparr>c_api_key = ''key'', c_secret_key = ''secret'', c_testnet = True\<rparr>"

text \<open>A facade that was built with a logger, before and after \<open>__aenter__\<close>.\<close>

definition fresh_world :: world where
  "fresh_world =
     \<lparr>svc = \<lparr>logger = Logger, testnet = True, api_key = ''key'', secret_key = ''secret'',
              client = None\<rparr>,
      trace = []\<rparr>"

definition opened_world :: world where
  "opened_world =
     \<lparr>svc = \<lparr>logger = Logger, testnet = True, api_key = ''key'', secret_key = ''secret'',
              client = Some demo_client\<rparr>,
      trace = []\<rparr>"

definition demo_float_of_str :: "string \<Rightarrow> exn + pyfloat" where
  "demo_float_of_str s =
     (if s = ''0.000'' then Inr (Fin 0)
      else if s = ''0.5'' then Inr (Fin (1 / 2))
      else if s = ''-1.25'' then Inr (Fin (- (5 / 4)))
      else Inl (Exn ''ValueError'' (''could not convert string to float: '' @ quoted s)))"

definition demo_order :: pyval where
  "demo_order =
     PDict [(''orderId'', PInt 42), (''symbol'', PStr ''BTCUSDT''), (''side'', PStr ''BUY''),
            (''status'', PStr ''NEW'')]"

definition long_position :: pyval where
  "long_position =
     PDict [(''symbol'', PStr ''BTCUSDT''), (''positionAmt'', PStr ''0.5''),
            (''entryPrice'', PStr ''50000''), (''markPrice'', PStr ''50100''),
            (''unRealizedProfit'', PStr ''0.5'')]"

definition flat_position :: pyval where
  "flat_position =
     PDict [(''symbol'', PStr ''ETHUSDT''), (''positionAmt'', PStr ''0.000''),
            (''entryPrice'', PStr ''0.0''), (''markPrice'', PStr ''3000''),
            (''unRealizedProfit'', PStr ''0.000'')]"

definition bare_position :: pyval where
  "bare_position = PDict [(''symbol'', PStr ''XRPUSDT'')]"

definition demo_respond :: "event list \<Rightarrow> client \<Rightarrow> string \<Rightarrow> kwargs \<Rightarrow> exn + pyval" where
  "demo_respond h c method kw =
     (if method = ''futures_position_information''
      then Inr (PList [long_position, flat_position, bare_position])
      else if method = ''futures_get_open_orders'' then Inr (PList [])
      else Inr demo_order)"

definition demo_env :: env where
  "demo_env =
     \<lparr>str_of = (\<lambda>v. ''<value>''), fmt_2f = (\<lambda>f. ''<float>''),
      fmt_comma_2f = (\<lambda>f. ''<float>''), float_of_str = demo_float_of_str,
      create = (\<lambda>h k s t. None), respond = demo_respond,
      close_connection = (\<lambda>h c. None)\<rparr>"

text \<open>An exchange that rejects every request.\<close>

definition rejection :: exn where
  "rejection = Exn ''BinanceAPIException'' ''APIError(code=-2011): Unknown order sent.''"

definition rejecting_env :: env where
  "rejecting_env = demo_env\<lparr>respond := (\<lambda>h c method kw. Inl rejection)\<rparr>"

section \<open>Shared facts\<close>

lemmas step_defs = log_and_reraise_def and_then_def remote_call_def log_msg_def emit_def

lemmas side_defs = SIDE_BUY_def SIDE_SELL_def

lemma remote_calls_append: "remote_calls (xs @ ys) = remote_calls xs @ remote_calls ys"
  by (simp add: remote_calls_def)

lemma error_logs_append: "error_logs (xs @ ys) = error_logs xs @ error_logs ys"
  by (simp add: error_logs_def)

lemmas op_defs = place_futures_market_order_def place_futures_limit_order_def
  place_stop_limit_order_def get_current_price_def get_account_balance_def cancel_order_def
  get_open_orders_def get_position_info_def

text \<open>
  What an order placement leaves behind, however it ends: the facade object is the one
  it started with, the trace has grown, the client was invoked once if the side was
  valid and a client was there and not at all otherwise, and no connection was opened
  or closed.
\<close>

lemma market_shape:
  assumes "place_futures_market_order E symbol side quantity w = (r, w')"
  shows "svc w' = svc w \<and>
    (\<exists>es. trace w' = trace w @ es
      \<and> remote_calls es =
          (if side \<in> {''BUY'', ''SELL''} then
             (case client (svc w) of
                Some c \<Rightarrow> [Call c ''futures_create_order'' (market_kwargs symbol side quantity)]
              | None \<Rightarrow> [])
           else [])
      \<and> (\<forall>ev\<in>set es. \<not> is_connection_event ev))"
  using assms
  by (auto simp: place_futures_market_order_def step_defs side_defs remote_calls_def
      split: sum.splits option.splits if_splits)

lemma limit_shape:
  assumes "place_futures_limit_order E symbol side quantity price w = (r, w')"
  shows "svc w' = svc w \<and>
    (\<exists>es. trace w' = trace w @ es
      \<and> remote_calls es =
          (if side \<in> {''BUY'', ''SELL''} then
             (case client (svc w) of
                Some c \<Rightarrow>
                  [Call c ''futures_create_order'' (limit_kwargs symbol side quantity price)]
              | None \<Rightarrow> [])
           else [])
      \<and> (\<forall>ev\<in>set es. \<not> is_connection_event ev))"
  using assms
  by (auto simp: place_futures_limit_order_def step_defs side_defs remote_calls_def
      split: sum.splits option.splits if_splits)

lemma stop_limit_shape:
  assumes "place_stop_limit_order E symbol side quantity price stop_price w = (r, w')"
  shows "svc w' = svc w \<and>
    (\<exists>es. trace w' = trace w @ es
      \<and> remote_calls es =
          (if side \<in> {''BUY'', ''SELL''} then
             (case client (svc w) of
                Some c \<Rightarrow>
                  [Call c ''create_order''
                     (stop_limit_kwargs symbol side quantity price stop_price)]
              | None \<Rightarrow> [])
           else [])
      \<and> (\<forall>ev\<in>set es. \<not> is_connection_event ev))"
  using assms
  by (auto simp: place_stop_limit_order_def step_defs side_defs remote_calls_def
      split: sum.splits option.splits if_splits)

lemma foldl_no_connection_event:
  "(\<forall>ev\<in>set es. \<not> is_connection_event ev) \<Longrightarrow> foldl connection_step cs es = cs"
proof (induction es arbitrary: cs)
  case Nil
  then show ?case by simp
next
  case (Cons ev es)
  then show ?case by (cases ev) simp_all
qed

lemma open_connections_append:
  "open_connections (tr @ es) = foldl connection_step (open_connections tr) es"
  by (simp add: open_connections_def)

lemma connection_step_other:
  "\<not> is_connection_event ev \<Longrightarrow> connection_step cs ev = cs"
  by (cases ev) simp_all

lemma open_connections_scope:
  assumes "\<forall>ev\<in>set es. \<not> is_connection_event ev"
    and "\<forall>ev\<in>set tail. \<not> is_connection_event ev"
    and "\<not> is_connection_event lg"
  shows "open_connections (tr @ [Connect c, lg] @ es @ Close c # tail) = open_connections tr"
  using assms
  by (simp add: open_connections_def foldl_no_connection_event connection_step_other)

text \<open>Every operation of the facade is such a block, and so is a sequence of them.\<close>

lemma lca_market: "leaves_connection_alone (place_futures_market_order E symbol side quantity)"
  unfolding leaves_connection_alone_def
proof
  fix v
  obtain r w' where f: "place_futures_market_order E symbol side quantity v = (r, w')"
    by (cases "place_futures_market_order E symbol side quantity v")
  from market_shape[OF f] show "svc (snd (place_futures_market_order E symbol side quantity v)) = svc v \<and>
         (\<exists>es. trace (snd (place_futures_market_order E symbol side quantity v)) = trace v @ es \<and>
               (\<forall>ev\<in>set es. \<not> is_connection_event ev))"
    unfolding f snd_conv by blast
qed

lemma lca_limit: "leaves_connection_alone (place_futures_limit_order E symbol side quantity price)"
  unfolding leaves_connection_alone_def
proof
  fix v
  obtain r w' where f: "place_futures_limit_order E symbol side quantity price v = (r, w')"
    by (cases "place_futures_limit_order E symbol side quantity price v")
  from limit_shape[OF f] show "svc (snd (place_futures_limit_order E symbol side quantity price v)) = svc v \<and>
         (\<exists>es. trace (snd (place_futures_limit_order E symbol side quantity price v)) = trace v @ es \<and>
               (\<forall>ev\<in>set es. \<not> is_connection_event ev))"
    unfolding f snd_conv by blast
qed

lemma lca_stop_limit: "leaves_connection_alone (place_stop_limit_order E symbol side quantity price stop_price)"
  unfolding leaves_connection_alone_def
proof
  fix v
  obtain r w' where f: "place_stop_limit_order E symbol side quantity price stop_price v = (r, w')"
    by (cases "place_stop_limit_order E symbol side quantity price stop_price v")
  from stop_limit_shape[OF f] show "svc (snd (place_stop_limit_order E symbol side quantity price stop_price v)) = svc v \<and>
         (\<exists>es. trace (snd (place_stop_limit_order E symbol side quantity price stop_price v)) = trace v @ es \<and>
               (\<forall>ev\<in>set es. \<not> is_connection_event ev))"
    unfolding f snd_conv by blast
qed

lemma lca_price: "leaves_connection_alone (get_current_price E symbol)"
  unfolding leaves_connection_alone_def
  by (auto simp: get_current_price_def step_defs split: sum.splits option.splits)

lemma lca_balance: "leaves_connection_alone (get_account_balance E)"
  unfolding leaves_connection_alone_def
  by (auto simp: get_account_balance_def step_defs split: sum.splits option.splits)

lemma lca_cancel: "leaves_connection_alone (cancel_order E symbol order_id)"
  unfolding leaves_connection_alone_def
  by (auto simp: cancel_order_def step_defs split: sum.splits option.splits)

lemma lca_orders: "leaves_connection_alone (get_open_orders E symbol)"
  unfolding leaves_connection_alone_def
  by (auto simp: get_open_orders_def step_defs split: sum.splits option.splits)

lemma lca_positions: "leaves_connection_alone (get_position_info E symbol)"
  unfolding leaves_connection_alone_def
  by (auto simp: get_position_info_def step_defs split: sum.splits option.splits)

lemma lca_and_then:
  assumes "leaves_connection_alone f" and "\<And>x. leaves_connection_alone (g x)"
  shows "leaves_connection_alone (\<lambda>w. and_then (f w) g)"
  unfolding leaves_connection_alone_def
proof
  fix v
  obtain r w1 where f: "f v = (r, w1)" by (cases "f v")
  from assms(1) f obtain es where s1: "svc w1 = svc v" and t1: "trace w1 = trace v @ es"
    and q1: "\<forall>ev\<in>set es. \<not> is_connection_event ev"
    unfolding leaves_connection_alone_def by (metis snd_conv)
  show "svc (snd (and_then (f v) g)) = svc v \<and>
         (\<exists>es. trace (snd (and_then (f v) g)) = trace v @ es \<and>
               (\<forall>ev\<in>set es. \<not> is_connection_event ev))"
  proof (cases r)
    case (Inl e)
    then show ?thesis using s1 t1 q1 by (simp add: and_then_def f)
  next
    case (Inr x)
    from assms(2)[of x] obtain es2 where s2: "svc (snd (g x w1)) = svc w1"
      and t2: "trace (snd (g x w1)) = trace w1 @ es2"
      and q2: "\<forall>ev\<in>set es2. \<not> is_connection_event ev"
      unfolding leaves_connection_alone_def by metis
    have "trace (snd (g x w1)) = trace v @ (es @ es2)" by (simp add: t2 t1)
    moreover have "\<forall>ev\<in>set (es @ es2). \<not> is_connection_event ev" using q1 q2 by auto
    ultimately show ?thesis using s1 s2 unfolding and_then_def f Inr by (simp del: append_assoc)
  qed
qed

text \<open>The block under \<open>async with\<close> of every command is one as well.\<close>

lemma lca_display:
  "leaves_connection_alone (\<lambda>w. display_order E order (emit (Print m) w))"
  unfolding leaves_connection_alone_def
  by (auto simp: display_order_def emit_def split: sum.splits)

lemma lca_market_execute: "leaves_connection_alone (market_execute E symbol side quantity)"
  unfolding market_execute_def by (intro lca_and_then lca_market lca_display)

lemma lca_limit_execute: "leaves_connection_alone (limit_execute E symbol side quantity price)"
  unfolding limit_execute_def by (intro lca_and_then lca_limit lca_display)

lemma lca_stop_limit_execute:
  "leaves_connection_alone (stop_limit_execute E symbol side quantity price stop_price)"
  unfolding stop_limit_execute_def by (intro lca_and_then lca_stop_limit lca_display)

lemma lca_print: "leaves_connection_alone (\<lambda>w. (r, emit (Print m) w))"
  unfolding leaves_connection_alone_def by (simp add: emit_def)

lemma lca_price_execute: "leaves_connection_alone (price_execute E symbol)"
  unfolding price_execute_def by (intro lca_and_then lca_price lca_print)

lemma lca_balance_execute: "leaves_connection_alone (balance_execute E)"
  unfolding balance_execute_def by (intro lca_and_then lca_balance lca_print)

lemma lca_cancel_execute: "leaves_connection_alone (cancel_execute E symbol order_id)"
  unfolding cancel_execute_def by (intro lca_and_then lca_cancel lca_print)

lemma lca_orders_execute: "leaves_connection_alone (orders_execute E symbol)"
  unfolding orders_execute_def
  by (intro lca_and_then lca_orders)
     (auto simp: leaves_connection_alone_def and_then_def emit_def split: sum.splits)

lemma lca_position_execute: "leaves_connection_alone (position_execute E symbol)"
  unfolding position_execute_def
  by (intro lca_and_then lca_positions)
     (auto simp: leaves_connection_alone_def and_then_def emit_def split: sum.splits)

text \<open>
  The invocations of the client by each operation, and by the block of each command:
  what a block prints after its operation adds none.
\<close>

lemma calls_after:
  assumes "f = (r, w')"
    and "svc w' = svc w \<and>
      (\<exists>es. trace w' = trace w @ es \<and> remote_calls es = cs
         \<and> (\<forall>ev\<in>set es. \<not> is_connection_event ev))"
  shows "remote_calls (trace (snd f)) = remote_calls (trace w) @ cs"
  using assms by (auto simp: remote_calls_append)

lemma market_calls:
  "remote_calls (trace (snd (place_futures_market_order E symbol side quantity w))) =
     remote_calls (trace w) @
       (if side \<in> {''BUY'', ''SELL''} then
          (case client (svc w) of
             Some c \<Rightarrow> [Call c ''futures_create_order'' (market_kwargs symbol side quantity)]
           | None \<Rightarrow> [])
        else [])"
proof -
  obtain r w' where f: "place_futures_market_order E symbol side quantity w = (r, w')"
    by (cases "place_futures_market_order E symbol side quantity w")
  show ?thesis by (rule calls_after[OF f market_shape[OF f]])
qed

lemma limit_calls:
  "remote_calls (trace (snd (place_futures_limit_order E symbol side quantity price w))) =
     remote_calls (trace w) @
       (if side \<in> {''BUY'', ''SELL''} then
          (case client (svc w) of
             Some c \<Rightarrow>
               [Call c ''futures_create_order'' (limit_kwargs symbol side quantity price)]
           | None \<Rightarrow> [])
        else [])"
proof -
  obtain r w' where f: "place_futures_limit_order E symbol side quantity price w = (r, w')"
    by (cases "place_futures_limit_order E symbol side quantity price w")
  show ?thesis by (rule calls_after[OF f limit_shape[OF f]])
qed

lemma stop_limit_calls:
  "remote_calls (trace (snd (place_stop_limit_order E symbol side quantity price stop_price w))) =
     remote_calls (trace w) @
       (if side \<in> {''BUY'', ''SELL''} then
          (case client (svc w) of
             Some c \<Rightarrow>
               [Call c ''create_order''
                  (stop_limit_kwargs symbol side quantity price stop_price)]
           | None \<Rightarrow> [])
        else [])"
proof -
  obtain r w' where f:
    "place_stop_limit_order E symbol side quantity price stop_price w = (r, w')"
    by (cases "place_stop_limit_order E symbol side quantity price stop_price w")
  show ?thesis by (rule calls_after[OF f stop_limit_shape[OF f]])
qed

lemma price_calls:
  "client (svc w) = Some c \<Longrightarrow>
   remote_calls (trace (snd (get_current_price E symbol w))) =
     remote_calls (trace w) @ [Call c ''futures_symbol_ticker'' [(''symbol'', PStr symbol)]]"
  by (auto simp: get_current_price_def step_defs remote_calls_def split: sum.splits)

lemma cancel_calls:
  "client (svc w) = Some c \<Longrightarrow>
   remote_calls (trace (snd (cancel_order E symbol order_id w))) =
     remote_calls (trace w) @
       [Call c ''futures_cancel_order'' [(''symbol'', PStr symbol), (''orderId'', PInt order_id)]]"
  by (auto simp: cancel_order_def step_defs remote_calls_def split: sum.splits)

lemma orders_calls:
  "client (svc w) = Some c \<Longrightarrow>
   remote_calls (trace (snd (get_open_orders E symbol w))) =
     remote_calls (trace w) @ [Call c ''futures_get_open_orders'' [(''symbol'', opt_str symbol)]]"
  by (auto simp: get_open_orders_def step_defs remote_calls_def split: sum.splits)

lemma positions_calls:
  "client (svc w) = Some c \<Longrightarrow>
   remote_calls (trace (snd (get_position_info E symbol w))) =
     remote_calls (trace w) @
       [Call c ''futures_position_information'' [(''symbol'', opt_str symbol)]]"
  by (auto simp: get_position_info_def step_defs remote_calls_def split: sum.splits)

lemma and_then_calls:
  assumes "\<And>x v. remote_calls (trace (snd (g x v))) = remote_calls (trace v)"
  shows "remote_calls (trace (snd (and_then out g))) = remote_calls (trace (snd out))"
proof (cases out)
  case (Pair r v)
  then show ?thesis using assms by (cases r) (simp_all add: and_then_def)
qed

lemma display_calls:
  "remote_calls (trace (snd (display_order E order (emit (Print m) v)))) = remote_calls (trace v)"
  by (simp add: display_order_def emit_def remote_calls_def split: sum.splits)

lemma print_calls:
  "remote_calls (trace (snd (r, emit (Print m) v))) = remote_calls (trace v)"
  by (simp add: emit_def remote_calls_def)

lemma orders_render_calls:
  "remote_calls (trace (snd
     (if \<not> truthy orders then (Inr (), emit (Print m) v)
      else and_then (len orders, v) (\<lambda>n w2.
           and_then (iterate orders, w2) (\<lambda>items w3.
           and_then (rows_of f items, w3) (\<lambda>rows w4.
             (Inr (), emit (PrintTable (title n) cols rows) w4))))))) = remote_calls (trace v)"
  by (simp add: and_then_def emit_def remote_calls_def split: sum.splits)

lemma positions_render_calls:
  "remote_calls (trace (snd
     (and_then (active_positions E positions, v) (\<lambda>active w2.
        if active = [] then (Inr (), emit (Print m) w2)
        else and_then (rows_of f active, w2) (\<lambda>rows w3.
               (Inr (), emit (PrintTable title cols rows) w3)))))) = remote_calls (trace v)"
  by (simp add: and_then_def emit_def remote_calls_def split: sum.splits)

lemma market_execute_calls:
  "remote_calls (trace (snd (market_execute E symbol side quantity w))) =
   remote_calls (trace (snd (place_futures_market_order E (upper symbol) (upper side) quantity w)))"
  unfolding market_execute_def by (rule and_then_calls) (rule display_calls)

lemma limit_execute_calls:
  "remote_calls (trace (snd (limit_execute E symbol side quantity price w))) =
   remote_calls (trace (snd
     (place_futures_limit_order E (upper symbol) (upper side) quantity price w)))"
  unfolding limit_execute_def by (rule and_then_calls) (rule display_calls)

lemma stop_limit_execute_calls:
  "remote_calls (trace (snd (stop_limit_execute E symbol side quantity price stop_price w))) =
   remote_calls (trace (snd
     (place_stop_limit_order E (upper symbol) (upper side) quantity price stop_price w)))"
  unfolding stop_limit_execute_def by (rule and_then_calls) (rule display_calls)

lemma price_execute_calls:
  "remote_calls (trace (snd (price_execute E symbol w))) =
   remote_calls (trace (snd (get_current_price E (upper symbol) w)))"
  unfolding price_execute_def by (rule and_then_calls) (rule print_calls)

lemma cancel_execute_calls:
  "remote_calls (trace (snd (cancel_execute E symbol order_id w))) =
   remote_calls (trace (snd (cancel_order E (upper symbol) order_id w)))"
  unfolding cancel_execute_def by (rule and_then_calls) (rule print_calls)

lemma orders_execute_calls:
  "remote_calls (trace (snd (orders_execute E symbol w))) =
   remote_calls (trace (snd (get_open_orders E (upper_if_given symbol) w)))"
  unfolding orders_execute_def by (rule and_then_calls) (rule orders_render_calls)

lemma position_execute_calls:
  "remote_calls (trace (snd (position_execute E symbol w))) =
   remote_calls (trace (snd (get_position_info E (upper_if_given symbol) w)))"
  unfolding position_execute_def by (rule and_then_calls) (rule positions_render_calls)

text \<open>
  The comprehension that selects the active positions: it is a filter on the amounts
  whenever every amount can be read, and it can be read off its result that every
  amount could.
\<close>

lemma keep_active_readable:
  assumes "\<forall>p\<in>set ps. \<exists>a. position_amount E p = Inr a"
  shows "keep_active E ps = Inr (filter (\<lambda>p. position_amount E p \<noteq> Inr (Fin 0)) ps)"
  using assms
proof (induction ps)
  case Nil
  then show ?case by simp
next
  case (Cons p ps)
  then obtain a where a: "position_amount E p = Inr a" by auto
  from Cons have "keep_active E ps = Inr (filter (\<lambda>p. position_amount E p \<noteq> Inr (Fin 0)) ps)"
    by simp
  with a show ?case by (simp add: or_raise_def)
qed

lemma keep_active_filter:
  assumes "keep_active E ps = Inr acts"
  shows "acts = filter (\<lambda>p. position_amount E p \<noteq> Inr (Fin 0)) ps
    \<and> (\<forall>p\<in>set ps. \<exists>a. position_amount E p = Inr a)"
  using assms
proof (induction ps arbitrary: acts)
  case Nil
  then show ?case by simp
next
  case (Cons p ps)
  from Cons.prems obtain a rest where a: "position_amount E p = Inr a"
    and rest: "keep_active E ps = Inr rest"
    and acts: "acts = (if a \<noteq> Fin 0 then p # rest else rest)"
    by (auto simp: or_raise_def split: sum.splits)
  from Cons.IH[OF rest] a acts show ?case by auto
qed

lemma rows_of_length: "rows_of f xs = Inr rows \<Longrightarrow> length rows = length xs"
  by (induction xs arbitrary: rows) (auto simp: or_raise_def split: sum.splits)

lemma missing_amount_is_zero:
  "map_of kvs ''positionAmt'' = None \<Longrightarrow> position_amount E (PDict kvs) = Inr (Fin 0)"
  by (simp add: position_amount_def or_raise_def)

lemma keep_active_skips:
  assumes "position_amount E q = Inr (Fin 0)"
  shows "keep_active E (xs @ q # ys) = keep_active E (xs @ ys)"
proof (induction xs)
  case Nil
  show ?case using assms by (simp add: or_raise_def split: sum.splits)
next
  case (Cons x xs)
  then show ?case by simp
qed

lemma present_amount:
  assumes "position_amount E p = Inr a" and "a \<noteq> Fin 0"
  shows "\<exists>kvs v. p = PDict kvs \<and> map_of kvs ''positionAmt'' = Some v \<and> float_of E v = Inr a"
proof (cases p)
  case (PDict kvs)
  show ?thesis
  proof (cases "map_of kvs ''positionAmt''")
    case None
    with assms PDict show ?thesis by (simp add: position_amount_def or_raise_def)
  next
    case (Some v)
    with assms PDict show ?thesis by (simp add: position_amount_def or_raise_def)
  qed
qed (use assms in \<open>simp_all add: position_amount_def or_raise_def\<close>)

lemma demo_amounts:
  "position_amount demo_env long_position = Inr (Fin (1 / 2))"
  "position_amount demo_env flat_position = Inr (Fin 0)"
  "position_amount demo_env bare_position = Inr (Fin 0)"
  by (simp_all add: position_amount_def or_raise_def long_position_def flat_position_def
        bare_position_def demo_env_def demo_float_of_str_def)

section \<open>Construction of the facade\<close>

text \<open>
  Claim C1. The construction every command makes, from the network-mode flag and the
  credentials of the global state alone, does not yield a facade: \<open>__init__\<close> requires
  a logger, so the call raises \<open>TypeError\<close>, whatever the settings and the state are.
  Each of the eight commands therefore ends with that exception before \<open>__aenter__\<close>
  runs, and leaves the trace as it found it.
\<close>

theorem command_construction_raises:
  "exn_class missing_logger = ''TypeError''
   \<and> cli_service S st = Inl missing_logger
   \<and> market_order E S st symbol side quantity tr = (Inl missing_logger, tr)
   \<and> limit_order E S st symbol side quantity price tr = (Inl missing_logger, tr)
   \<and> stop_limit_order E S st symbol side quantity price stop_price tr
       = (Inl missing_logger, tr)
   \<and> get_price E S st symbol tr = (Inl missing_logger, tr)
   \<and> get_balance E S st tr = (Inl missing_logger, tr)
   \<and> list_orders E S st given tr = (Inl missing_logger, tr)
   \<and> get_position E S st given tr = (Inl missing_logger, tr)
   \<and> cancel_order_command E S st symbol order_id tr = (Inl missing_logger, tr)"
  by (simp add: market_order_def limit_order_def stop_limit_order_def get_price_def
        get_balance_def list_orders_def get_position_def cancel_order_command_def
        scoped_def cli_service_def TradeService_init_def missing_logger_def)

section \<open>Validation of the side\<close>

text \<open>
  Claim C2. For every side other than \<open>BUY\<close> and \<open>SELL\<close>, each of the three order
  placements raises the \<open>ValueError\<close> of the validation; the state it leaves differs
  from the one it started in by a single error log record, so the client was not
  invoked.
\<close>

theorem invalid_side_rejected_before_remote_call:
  assumes "side \<notin> {''BUY'', ''SELL''}"
  shows "exn_class (invalid_side side) = ''ValueError''
    \<and> place_futures_market_order E symbol side quantity w =
        (Inl (invalid_side side),
         w\<lparr>trace := trace w
              @ [Log ERROR False (''Market order failed: '' @ exn_str (invalid_side side))]\<rparr>)
    \<and> place_futures_limit_order E symbol side quantity price w =
        (Inl (invalid_side side),
         w\<lparr>trace := trace w
              @ [Log ERROR False (''Limit order failed: '' @ exn_str (invalid_side side))]\<rparr>)
    \<and> place_stop_limit_order E symbol side quantity price stop_price w =
        (Inl (invalid_side side),
         w\<lparr>trace := trace w
              @ [Log ERROR False (''Market order failed: '' @ exn_str (invalid_side side))]\<rparr>)
    \<and> remote_calls (trace w @ [Log ERROR False m]) = remote_calls (trace w)"
  using assms
  by (simp add: place_futures_market_order_def place_futures_limit_order_def
        place_stop_limit_order_def step_defs side_defs invalid_side_def remote_calls_def)

theorem invalid_side_rejected_before_remote_call_witness:
  "''HOLD'' \<notin> {''BUY'', ''SELL''}
    \<and> exn_class (invalid_side ''HOLD'') = ''ValueError''
    \<and> place_futures_market_order demo_env ''BTCUSDT'' ''HOLD'' (Fin 1) opened_world =
        (Inl (invalid_side ''HOLD''),
         opened_world\<lparr>trace := trace opened_world
              @ [Log ERROR False (''Market order failed: '' @ exn_str (invalid_side ''HOLD''))]\<rparr>)
    \<and> place_futures_limit_order demo_env ''BTCUSDT'' ''HOLD'' (Fin 1) (Fin 2) opened_world =
        (Inl (invalid_side ''HOLD''),
         opened_world\<lparr>trace := trace opened_world
              @ [Log ERROR False (''Limit order failed: '' @ exn_str (invalid_side ''HOLD''))]\<rparr>)
    \<and> place_stop_limit_order demo_env ''BTCUSDT'' ''HOLD'' (Fin 1) (Fin 2) (Fin 3) opened_world =
        (Inl (invalid_side ''HOLD''),
         opened_world\<lparr>trace := trace opened_world
              @ [Log ERROR False (''Market order failed: '' @ exn_str (invalid_side ''HOLD''))]\<rparr>)
    \<and> remote_calls (trace opened_world @ [Log ERROR False ''x'']) = remote_calls (trace opened_world)"
  using invalid_side_rejected_before_remote_call
    [of "''HOLD''" demo_env "''BTCUSDT''" "Fin 1" opened_world "Fin 2" "Fin 3" "''x''"]
  by simp

section \<open>The market command\<close>

text \<open>
  Claim C5. The command \<open>market btcusdt buy 0.001\<close> does not reach the exchange:
  building the facade without a logger raises \<open>TypeError\<close> before the connection is
  opened, whatever the environment, the settings and the global state are, and the
  trace is left as it was.
\<close>

theorem market_command_raises_before_any_call:
  "market_order E S st ''btcusdt'' ''buy'' (Fin (1 / 1000)) tr =
     (Inl (Exn ''TypeError''
        (''TradeService.__init__() missing 1 required positional argument: ''
           @ quoted ''logger'')), tr)"
  by (simp add: market_order_def scoped_def cli_service_def TradeService_init_def
        missing_logger_def)

text \<open>
  The block under \<open>async with\<close> of that command, run on a facade that was opened, does
  issue the one call the example expects.
\<close>

lemma market_execute_example:
  assumes "client (svc w) = Some c"
  shows "remote_calls (trace (snd (market_execute E ''btcusdt'' ''buy'' (Fin (1 / 1000)) w))) =
     remote_calls (trace w) @
       [Call c ''futures_create_order''
          [(''symbol'', PStr ''BTCUSDT''), (''side'', PStr ''BUY''), (''type'', PStr ''MARKET''),
           (''quantity'', PFloat (Fin (1 / 1000)))]]"
  using assms
  by (simp add: market_execute_def place_futures_market_order_def step_defs side_defs
        upper_def upper_char_def market_kwargs_def FUTURE_ORDER_TYPE_MARKET_def
        display_order_def remote_calls_def
      split: sum.splits)

section \<open>Failures of the remote call\<close>

text \<open>
  Claim C3. On a facade that holds a client, when the remote call of an operation
  raises an exception \<open>e\<close>, the operation raises that same \<open>e\<close>; the state it leaves is
  the one it started in with a longer trace only, so the client handle, the credentials
  and the mode are untouched; and what the trace gained is the record the placement
  logs before the call (placements only), the one invocation of the client, and one
  error record whose message ends with \<open>str(e)\<close>. This holds for each of the eight
  operations; nothing is retried and \<open>e\<close> is not replaced.
\<close>

theorem remote_failure_logged_once_and_reraised:
  assumes "client (svc w) = Some c"
  shows
   "(side \<in> {''BUY'', ''SELL''}
      \<and> respond E (trace w @ [Log INFO False (market_announcement E symbol side quantity)]) c
            ''futures_create_order'' (market_kwargs symbol side quantity) = Inl e
      \<longrightarrow> place_futures_market_order E symbol side quantity w =
            (Inl e,
             w\<lparr>trace := trace w @
                [Log INFO False (market_announcement E symbol side quantity),
                 Call c ''futures_create_order'' (market_kwargs symbol side quantity),
                 Log ERROR False (''Market order failed: '' @ exn_str e)]\<rparr>))
    \<and> (side \<in> {''BUY'', ''SELL''}
      \<and> respond E (trace w @ [Log INFO False (limit_announcement E symbol side quantity price)])
            c ''futures_create_order'' (limit_kwargs symbol side quantity price) = Inl e
      \<longrightarrow> place_futures_limit_order E symbol side quantity price w =
            (Inl e,
             w\<lparr>trace := trace w @
                [Log INFO False (limit_announcement E symbol side quantity price),
                 Call c ''futures_create_order'' (limit_kwargs symbol side quantity price),
                 Log ERROR False (''Limit order failed: '' @ exn_str e)]\<rparr>))
    \<and> (side \<in> {''BUY'', ''SELL''}
      \<and> respond E
            (trace w @
               [Log INFO False (stop_limit_announcement E symbol side quantity price stop_price)])
            c ''create_order'' (stop_limit_kwargs symbol side quantity price stop_price) = Inl e
      \<longrightarrow> place_stop_limit_order E symbol side quantity price stop_price w =
            (Inl e,
             w\<lparr>trace := trace w @
                [Log INFO False (stop_limit_announcement E symbol side quantity price stop_price),
                 Call c ''create_order''
                   (stop_limit_kwargs symbol side quantity price stop_price),
                 Log ERROR False (''Market order failed: '' @ exn_str e)]\<rparr>))
    \<and> (respond E (trace w) c ''futures_symbol_ticker'' [(''symbol'', PStr symbol)] = Inl e
      \<longrightarrow> get_current_price E symbol w =
            (Inl e,
             w\<lparr>trace := trace w @
                [Call c ''futures_symbol_ticker'' [(''symbol'', PStr symbol)],
                 Log ERROR False (''Failed to get price: '' @ exn_str e)]\<rparr>))
    \<and> (respond E (trace w) c ''futures_account'' [] = Inl e
      \<longrightarrow> get_account_balance E w =
            (Inl e,
             w\<lparr>trace := trace w @
                [Call c ''futures_account'' [],
                 Log ERROR False (''Failed to get balance: '' @ exn_str e)]\<rparr>))
    \<and> (respond E (trace w) c ''futures_cancel_order''
          [(''symbol'', PStr symbol), (''orderId'', PInt order_id)] = Inl e
      \<longrightarrow> cancel_order E symbol order_id w =
            (Inl e,
             w\<lparr>trace := trace w @
                [Call c ''futures_cancel_order''
                   [(''symbol'', PStr symbol), (''orderId'', PInt order_id)],
                 Log ERROR False (''Failed to cancel order: '' @ exn_str e)]\<rparr>))
    \<and> (respond E (trace w) c ''futures_get_open_orders'' [(''symbol'', opt_str filter_symbol)]
          = Inl e
      \<longrightarrow> get_open_orders E filter_symbol w =
            (Inl e,
             w\<lparr>trace := trace w @
                [Call c ''futures_get_open_orders'' [(''symbol'', opt_str filter_symbol)],
                 Log ERROR False (''Failed to get open orders: '' @ exn_str e)]\<rparr>))
    \<and> (respond E (trace w) c ''futures_position_information''
          [(''symbol'', opt_str filter_symbol)] = Inl e
      \<longrightarrow> get_position_info E filter_symbol w =
            (Inl e,
             w\<lparr>trace := trace w @
                [Call c ''futures_position_information'' [(''symbol'', opt_str filter_symbol)],
                 Log ERROR False (''Failed to get position info: '' @ exn_str e)]\<rparr>))"
  using assms
  by (simp add: op_defs step_defs side_defs)

theorem remote_failure_logged_once_and_reraised_witness:
  "client (svc opened_world) = Some demo_client
   \<and> place_futures_market_order rejecting_env ''BTCUSDT'' ''BUY'' (Fin 1) opened_world =
        (Inl rejection,
         opened_world\<lparr>trace :=
            [Log INFO False (market_announcement rejecting_env ''BTCUSDT'' ''BUY'' (Fin 1)),
             Call demo_client ''futures_create_order'' (market_kwargs ''BTCUSDT'' ''BUY'' (Fin 1)),
             Log ERROR False (''Market order failed: '' @ exn_str rejection)]\<rparr>)
   \<and> place_futures_limit_order rejecting_env ''BTCUSDT'' ''BUY'' (Fin 1) (Fin 2) opened_world =
        (Inl rejection,
         opened_world\<lparr>trace :=
            [Log INFO False (limit_announcement rejecting_env ''BTCUSDT'' ''BUY'' (Fin 1) (Fin 2)),
             Call demo_client ''futures_create_order''
               (limit_kwargs ''BTCUSDT'' ''BUY'' (Fin 1) (Fin 2)),
             Log ERROR False (''Limit order failed: '' @ exn_str rejection)]\<rparr>)
   \<and> place_stop_limit_order rejecting_env ''BTCUSDT'' ''BUY'' (Fin 1) (Fin 2) (Fin 3)
        opened_world =
        (Inl rejection,
         opened_world\<lparr>trace :=
            [Log INFO False
               (stop_limit_announcement rejecting_env ''BTCUSDT'' ''BUY'' (Fin 1) (Fin 2) (Fin 3)),
             Call demo_client ''create_order''
               (stop_limit_kwargs ''BTCUSDT'' ''BUY'' (Fin 1) (Fin 2) (Fin 3)),
             Log ERROR False (''Market order failed: '' @ exn_str rejection)]\<rparr>)
   \<and> get_current_price rejecting_env ''BTCUSDT'' opened_world =
        (Inl rejection,
         opened_world\<lparr>trace :=
            [Call demo_client ''futures_symbol_ticker'' [(''symbol'', PStr ''BTCUSDT'')],
             Log ERROR False (''Failed to get price: '' @ exn_str rejection)]\<rparr>)
   \<and> get_account_balance rejecting_env opened_world =
        (Inl rejection,
         opened_world\<lparr>trace :=
            [Call demo_client ''futures_account'' [],
             Log ERROR False (''Failed to get balance: '' @ exn_str rejection)]\<rparr>)
   \<and> cancel_order rejecting_env ''BTCUSDT'' 12345678 opened_world =
        (Inl rejection,
         opened_world\<lparr>trace :=
            [Call demo_client ''futures_cancel_order''
               [(''symbol'', PStr ''BTCUSDT''), (''orderId'', PInt 12345678)],
             Log ERROR False (''Failed to cancel order: '' @ exn_str rejection)]\<rparr>)
   \<and> get_open_orders rejecting_env None opened_world =
        (Inl rejection,
         opened_world\<lparr>trace :=
            [Call demo_client ''futures_get_open_orders'' [(''symbol'', PNone)],
             Log ERROR False (''Failed to get open orders: '' @ exn_str rejection)]\<rparr>)
   \<and> get_position_info rejecting_env (Some ''BTCUSDT'') opened_world =
        (Inl rejection,
         opened_world\<lparr>trace :=
            [Call demo_client ''futures_position_information''
               [(''symbol'', PStr ''BTCUSDT'')],
             Log ERROR False (''Failed to get position info: '' @ exn_str rejection)]\<rparr>)"
proof -
  have opened: "client (svc opened_world) = Some demo_client"
    by (simp add: opened_world_def)
  have rejects: "\<And>h m kw. respond rejecting_env h demo_client m kw = Inl rejection"
    by (simp add: rejecting_env_def)
  have empty: "trace opened_world = []"
    by (simp add: opened_world_def)
  note thm1 = remote_failure_logged_once_and_reraised
      [OF opened, of "''BUY''" rejecting_env "''BTCUSDT''" "Fin 1" rejection "Fin 2" "Fin 3"
         12345678 None]
  note thm2 = remote_failure_logged_once_and_reraised
      [OF opened, of "''BUY''" rejecting_env "''BTCUSDT''" "Fin 1" rejection "Fin 2" "Fin 3"
         12345678 "Some ''BTCUSDT''"]
  show ?thesis
    using thm1 thm2 opened by (simp add: rejects empty opt_str_def)
qed

section \<open>The stop-limit placement\<close>

text \<open>
  Claim C6. \<open>place_stop_limit_order\<close> invokes the client exactly once when the side
  is valid and a client is there, and not at all otherwise; that invocation is of
  \<open>create_order\<close> with type \<open>STOP_LOSS_LIMIT\<close> and the given quantity, price and
  stopPrice. Under the same conditions the market and the limit placement invoke
  \<open>futures_create_order\<close>.
\<close>

theorem stop_limit_goes_through_create_order:
  "remote_calls (trace (snd (place_stop_limit_order E symbol side quantity price stop_price w))) =
     remote_calls (trace w) @
       (if side \<in> {''BUY'', ''SELL''} then
          (case client (svc w) of
             Some c \<Rightarrow>
               [Call c ''create_order''
                  [(''symbol'', PStr symbol), (''side'', PStr side),
                   (''type'', PStr ''STOP_LOSS_LIMIT''), (''quantity'', PFloat quantity),
                   (''price'', PFloat price), (''stopPrice'', PFloat stop_price)]]
           | None \<Rightarrow> [])
        else [])
   \<and> remote_calls (trace (snd (place_futures_market_order E symbol side quantity w))) =
     remote_calls (trace w) @
       (if side \<in> {''BUY'', ''SELL''} then
          (case client (svc w) of
             Some c \<Rightarrow>
               [Call c ''futures_create_order''
                  [(''symbol'', PStr symbol), (''side'', PStr side),
                   (''type'', PStr ''MARKET''), (''quantity'', PFloat quantity)]]
           | None \<Rightarrow> [])
        else [])
   \<and> remote_calls (trace (snd (place_futures_limit_order E symbol side quantity price w))) =
     remote_calls (trace w) @
       (if side \<in> {''BUY'', ''SELL''} then
          (case client (svc w) of
             Some c \<Rightarrow>
               [Call c ''futures_create_order''
                  [(''symbol'', PStr symbol), (''side'', PStr side),
                   (''type'', PStr ''LIMIT''), (''timeInForce'', PStr ''GTC''),
                   (''quantity'', PFloat quantity), (''price'', PFloat price)]]
           | None \<Rightarrow> [])
        else [])"
proof -
  obtain r1 w1 where f1:
    "place_stop_limit_order E symbol side quantity price stop_price w = (r1, w1)"
    by (cases "place_stop_limit_order E symbol side quantity price stop_price w")
  obtain r2 w2 where f2: "place_futures_market_order E symbol side quantity w = (r2, w2)"
    by (cases "place_futures_market_order E symbol side quantity w")
  obtain r3 w3 where f3: "place_futures_limit_order E symbol side quantity price w = (r3, w3)"
    by (cases "place_futures_limit_order E symbol side quantity price w")
  from stop_limit_shape[OF f1] obtain es1 where
    t1: "trace w1 = trace w @ es1"
    and e1: "remote_calls es1 =
       (if side \<in> {''BUY'', ''SELL''} then
          (case client (svc w) of
             Some c \<Rightarrow>
               [Call c ''create_order'' (stop_limit_kwargs symbol side quantity price stop_price)]
           | None \<Rightarrow> [])
        else [])"
    by blast
  have c1: "remote_calls (trace w1) =
     remote_calls (trace w) @
       (if side \<in> {''BUY'', ''SELL''} then
          (case client (svc w) of
             Some c \<Rightarrow>
               [Call c ''create_order''
                  [(''symbol'', PStr symbol), (''side'', PStr side),
                   (''type'', PStr ''STOP_LOSS_LIMIT''), (''quantity'', PFloat quantity),
                   (''price'', PFloat price), (''stopPrice'', PFloat stop_price)]]
           | None \<Rightarrow> [])
        else [])"
    unfolding t1 remote_calls_append e1 stop_limit_kwargs_def ORDER_TYPE_STOP_LOSS_LIMIT_def
    by (rule refl)
  from market_shape[OF f2] obtain es2 where
    t2: "trace w2 = trace w @ es2"
    and e2: "remote_calls es2 =
       (if side \<in> {''BUY'', ''SELL''} then
          (case client (svc w) of
             Some c \<Rightarrow> [Call c ''futures_create_order'' (market_kwargs symbol side quantity)]
           | None \<Rightarrow> [])
        else [])"
    by blast
  have c2: "remote_calls (trace w2) =
     remote_calls (trace w) @
       (if side \<in> {''BUY'', ''SELL''} then
          (case client (svc w) of
             Some c \<Rightarrow>
               [Call c ''futures_create_order''
                  [(''symbol'', PStr symbol), (''side'', PStr side),
                   (''type'', PStr ''MARKET''), (''quantity'', PFloat quantity)]]
           | None \<Rightarrow> [])
        else [])"
    unfolding t2 remote_calls_append e2 market_kwargs_def FUTURE_ORDER_TYPE_MARKET_def
    by (rule refl)
  from limit_shape[OF f3] obtain es3 where
    t3: "trace w3 = trace w @ es3"
    and e3: "remote_calls es3 =
       (if side \<in> {''BUY'', ''SELL''} then
          (case client (svc w) of
             Some c \<Rightarrow>
               [Call c ''futures_create_order'' (limit_kwargs symbol side quantity price)]
           | None \<Rightarrow> [])
        else [])"
    by blast
  have c3: "remote_calls (trace w3) =
     remote_calls (trace w) @
       (if side \<in> {''BUY'', ''SELL''} then
          (case client (svc w) of
             Some c \<Rightarrow>
               [Call c ''futures_create_order''
                  [(''symbol'', PStr symbol), (''side'', PStr side),
                   (''type'', PStr ''LIMIT''), (''timeInForce'', PStr ''GTC''),
                   (''quantity'', PFloat quantity), (''price'', PFloat price)]]
           | None \<Rightarrow> [])
        else [])"
    unfolding t3 remote_calls_append e3 limit_kwargs_def ORDER_TYPE_LIMIT_def
      TIME_IN_FORCE_GTC_def
    by (rule refl)
  show ?thesis
    unfolding f1 f2 f3 snd_conv using c1 c2 c3 by (intro conjI)
qed

theorem stop_limit_goes_through_create_order_witness:
  "remote_calls
     (trace (snd (place_stop_limit_order demo_env ''BTCUSDT'' ''SELL'' (Fin (1 / 1000))
        (Fin 44900) (Fin 45000) opened_world))) =
     [Call demo_client ''create_order''
        [(''symbol'', PStr ''BTCUSDT''), (''side'', PStr ''SELL''),
         (''type'', PStr ''STOP_LOSS_LIMIT''), (''quantity'', PFloat (Fin (1 / 1000))),
         (''price'', PFloat (Fin 44900)), (''stopPrice'', PFloat (Fin 45000))]]"
  using stop_limit_goes_through_create_order
    [of demo_env "''BTCUSDT''" "''SELL''" "Fin (1 / 1000)" "Fin 44900" "Fin 45000" opened_world]
  by (simp add: opened_world_def remote_calls_def)

text \<open>
  Claim C9. Whenever \<open>place_stop_limit_order\<close> raises, be it the validation of the
  side, a rejection by the exchange or a response without the fields it reads, the last
  thing it did was to log one error record that starts with \<open>Market order failed: \<close>
  and continues with \<open>str(e)\<close>; it logged no other error record.
\<close>

theorem stop_limit_failure_logged_as_market:
  assumes "place_stop_limit_order E symbol side quantity price stop_price w = (Inl e, w')"
  shows "\<exists>es. trace w' = trace w @ es @ [Log ERROR False (''Market order failed: '' @ exn_str e)]
           \<and> error_logs es = []"
  using assms
  by (auto simp: place_stop_limit_order_def step_defs error_logs_def
      split: sum.splits option.splits if_splits)


theorem stop_limit_failure_logged_as_market_witness:
  "place_stop_limit_order rejecting_env ''BTCUSDT'' ''SELL'' (Fin 1) (Fin 2) (Fin 3) opened_world
     = (Inl rejection,
        opened_world\<lparr>trace :=
          [Log INFO False
             (stop_limit_announcement rejecting_env ''BTCUSDT'' ''SELL'' (Fin 1) (Fin 2) (Fin 3)),
           Call demo_client ''create_order''
             (stop_limit_kwargs ''BTCUSDT'' ''SELL'' (Fin 1) (Fin 2) (Fin 3)),
           Log ERROR False (''Market order failed: '' @ exn_str rejection)]\<rparr>)
   \<and> (\<exists>es. [Log INFO False
             (stop_limit_announcement rejecting_env ''BTCUSDT'' ''SELL'' (Fin 1) (Fin 2) (Fin 3)),
           Call demo_client ''create_order''
             (stop_limit_kwargs ''BTCUSDT'' ''SELL'' (Fin 1) (Fin 2) (Fin 3)),
           Log ERROR False (''Market order failed: '' @ exn_str rejection)]
         = es @ [Log ERROR False (''Market order failed: '' @ exn_str rejection)]
         \<and> error_logs es = [])"
proof -
  have run: "place_stop_limit_order rejecting_env ''BTCUSDT'' ''SELL'' (Fin 1) (Fin 2) (Fin 3)
      opened_world
     = (Inl rejection,
        opened_world\<lparr>trace :=
          [Log INFO False
             (stop_limit_announcement rejecting_env ''BTCUSDT'' ''SELL'' (Fin 1) (Fin 2) (Fin 3)),
           Call demo_client ''create_order''
             (stop_limit_kwargs ''BTCUSDT'' ''SELL'' (Fin 1) (Fin 2) (Fin 3)),
           Log ERROR False (''Market order failed: '' @ exn_str rejection)]\<rparr>)"
    by (simp add: place_stop_limit_order_def step_defs side_defs opened_world_def
          rejecting_env_def)
  from stop_limit_failure_logged_as_market[OF run] run show ?thesis
    by (simp add: opened_world_def)
qed

section \<open>Scoped use of the connection\<close>

text \<open>
  Claim C4. Take any block run under \<open>async with\<close> that leaves the connection alone
  (every facade operation does). If \<open>AsyncClient.create\<close> raises, the block does not
  run and nothing was opened. Otherwise the connection is established first: the block
  starts in a state whose client is set and whose trace already ends with the
  \<open>Connect\<close> event and the log record of \<open>__aenter__\<close>. However the block ends,
  returning or raising, \<open>close_connection\<close> is invoked on that same client right
  after the block's events, and nothing but a log record follows. The result is the
  block's own result or exception unless \<open>close_connection\<close> itself raises, and the
  connections open after the scope are those open before it.
\<close>

theorem scoped_use_connects_then_releases:
  assumes body: "leaves_connection_alone body"
  shows "case create E (trace w) (api_key (svc w)) (secret_key (svc w)) (testnet (svc w)) of
           Some e \<Rightarrow> async_with E body w = (Inl e, w)
         | None \<Rightarrow>
             (\<exists>lg es tail.
                let c = \<lparr>c_api_key = api_key (svc w), c_secret_key = secret_key (svc w),
                         c_testnet = testnet (svc w)\<rparr>;
                    w1 = w\<lparr>svc := (svc w)\<lparr>client := Some c\<rparr>,
                           trace := trace w @ [Connect c, lg]\<rparr>
                in trace (snd (body w1)) = trace w1 @ es
                 \<and> trace (snd (async_with E body w))
                     = trace w @ [Connect c, lg] @ es @ Close c # tail
                 \<and> (\<forall>ev\<in>set (es @ tail). \<not> is_connection_event ev)
                 \<and> fst (async_with E body w)
                     = (case close_connection E (trace w1 @ es) c of
                          Some e \<Rightarrow> Inl e
                        | None \<Rightarrow> fst (body w1))
                 \<and> open_connections (trace (snd (async_with E body w)))
                     = open_connections (trace w))"
proof (cases "create E (trace w) (api_key (svc w)) (secret_key (svc w)) (testnet (svc w))")
  case (Some e)
  then show ?thesis
    by (cases "testnet (svc w)") (simp_all add: async_with_def aenter_def)
next
  case None
  define c where "c = \<lparr>c_api_key = api_key (svc w), c_secret_key = secret_key (svc w),
                         c_testnet = testnet (svc w)\<rparr>"
  define lg where "lg = (if testnet (svc w)
      then Log INFO False ''Connected to Binance Futures TESTNET''
      else Log WARNING False ''Connected to REAL Binance Futures - USE WITH CAUTION'')"
  define w1 where "w1 = w\<lparr>svc := (svc w)\<lparr>client := Some c\<rparr>,
                           trace := trace w @ [Connect c, lg]\<rparr>"
  have enter: "aenter E w = (Inr (), w1)"
    using None
    by (cases "testnet (svc w)")
       (simp_all add: aenter_def c_def lg_def w1_def log_msg_def emit_def Let_def)
  obtain r w2 where run: "body w1 = (r, w2)" by (cases "body w1")
  from body obtain es where svc2: "svc w2 = svc w1" and tr2: "trace w2 = trace w1 @ es"
    and quiet: "\<forall>ev\<in>set es. \<not> is_connection_event ev"
    unfolding leaves_connection_alone_def using run by (metis snd_conv)
  have cl: "client (svc w2) = Some c" by (simp add: svc2 w1_def)
  define tail where "tail = (case close_connection E (trace w2) c of
      Some e \<Rightarrow> [] | None \<Rightarrow> [Log INFO False ''Connection Closed''])"
  have exit: "aexit E w2 =
      ((case close_connection E (trace w2) c of Some e \<Rightarrow> Inl e | None \<Rightarrow> Inr ()),
       w2\<lparr>trace := trace w2 @ Close c # tail\<rparr>)"
    using cl by (simp add: aexit_def tail_def log_msg_def emit_def split: option.splits)
  have whole: "async_with E body w =
      ((case close_connection E (trace w2) c of Some e \<Rightarrow> Inl e | None \<Rightarrow> r),
       w2\<lparr>trace := trace w2 @ Close c # tail\<rparr>)"
    by (simp add: async_with_def enter run exit split: option.splits)
  have quiet_tail: "\<forall>ev\<in>set tail. \<not> is_connection_event ev"
    by (simp add: tail_def split: option.splits)
  have tr1: "trace w1 = trace w @ [Connect c, lg]" by (simp add: w1_def)
  have lg_quiet: "\<not> is_connection_event lg" by (simp add: lg_def)
  have balance: "open_connections (trace w @ [Connect c, lg] @ es @ Close c # tail)
      = open_connections (trace w)"
    by (rule open_connections_scope[OF quiet quiet_tail lg_quiet])
  have "trace (snd (body w1)) = trace w1 @ es
      \<and> trace (snd (async_with E body w)) = trace w @ [Connect c, lg] @ es @ Close c # tail
      \<and> (\<forall>ev\<in>set (es @ tail). \<not> is_connection_event ev)
      \<and> fst (async_with E body w)
          = (case close_connection E (trace w1 @ es) c of
               Some e \<Rightarrow> Inl e
             | None \<Rightarrow> fst (body w1))
      \<and> open_connections (trace (snd (async_with E body w))) = open_connections (trace w)"
    using quiet quiet_tail balance
    by (auto simp: whole run tr2 tr1 split: option.splits)
  from this[unfolded w1_def] show ?thesis
    unfolding None option.case Let_def c_def[symmetric]
    by (intro exI)
qed

theorem scoped_use_connects_then_releases_witness:
  "leaves_connection_alone (cancel_order rejecting_env ''BTCUSDT'' 12345678)
   \<and> async_with rejecting_env (cancel_order rejecting_env ''BTCUSDT'' 12345678) fresh_world
     = (Inl rejection,
        fresh_world
          \<lparr>svc := (svc fresh_world)\<lparr>client := Some demo_client\<rparr>,
           trace :=
             [Connect demo_client,
              Log INFO False ''Connected to Binance Futures TESTNET'',
              Call demo_client ''futures_cancel_order''
                [(''symbol'', PStr ''BTCUSDT''), (''orderId'', PInt 12345678)],
              Log ERROR False (''Failed to cancel order: '' @ exn_str rejection),
              Close demo_client,
              Log INFO False ''Connection Closed'']\<rparr>)
   \<and> open_connections
        (trace (snd (async_with rejecting_env (cancel_order rejecting_env ''BTCUSDT'' 12345678)
           fresh_world))) = []"
proof -
  have quiet: "leaves_connection_alone (cancel_order rejecting_env ''BTCUSDT'' 12345678)"
    by (rule lca_cancel)
  have run: "async_with rejecting_env (cancel_order rejecting_env ''BTCUSDT'' 12345678)
      fresh_world
     = (Inl rejection,
        fresh_world
          \<lparr>svc := (svc fresh_world)\<lparr>client := Some demo_client\<rparr>,
           trace :=
             [Connect demo_client,
              Log INFO False ''Connected to Binance Futures TESTNET'',
              Call demo_client ''futures_cancel_order''
                [(''symbol'', PStr ''BTCUSDT''), (''orderId'', PInt 12345678)],
              Log ERROR False (''Failed to cancel order: '' @ exn_str rejection),
              Close demo_client,
              Log INFO False ''Connection Closed'']\<rparr>)"
    by (simp add: async_with_def aenter_def aexit_def cancel_order_def step_defs
          fresh_world_def rejecting_env_def demo_env_def demo_client_def Let_def)
  have "create rejecting_env (trace fresh_world) (api_key (svc fresh_world))
          (secret_key (svc fresh_world)) (testnet (svc fresh_world)) = None"
    by (simp add: rejecting_env_def demo_env_def)
  with scoped_use_connects_then_releases[OF quiet, where E = rejecting_env and w = fresh_world]
  have "open_connections
        (trace (snd (async_with rejecting_env (cancel_order rejecting_env ''BTCUSDT'' 12345678)
           fresh_world))) = open_connections (trace fresh_world)"
    by (auto simp: Let_def)
  then show ?thesis
    using quiet run by (simp add: fresh_world_def open_connections_def)
qed

section \<open>Symbols are upper-cased\<close>

text \<open>
  Claim C7. In the block of every command that takes a symbol, run on a facade that
  holds a client, the symbol handed to the remote call is \<open>symbol.upper()\<close>: for the
  three placements (whose call is made when the upper-cased side is valid), for
  \<open>price\<close> and for \<open>cancel\<close>, and, for \<open>orders\<close> and \<open>position\<close>, whenever a symbol
  is sent at all. Those two send \<open>None\<close>, that is no symbol, when the optional
  argument is left out or empty.
\<close>

theorem commands_send_upper_cased_symbol:
  assumes "client (svc w) = Some c"
  shows
   "remote_calls (trace (snd (market_execute E symbol side quantity w))) =
      remote_calls (trace w) @
        (if upper side \<in> {''BUY'', ''SELL''} then
           [Call c ''futures_create_order''
              [(''symbol'', PStr (upper symbol)), (''side'', PStr (upper side)),
               (''type'', PStr ''MARKET''), (''quantity'', PFloat quantity)]]
         else [])
    \<and> remote_calls (trace (snd (limit_execute E symbol side quantity price w))) =
      remote_calls (trace w) @
        (if upper side \<in> {''BUY'', ''SELL''} then
           [Call c ''futures_create_order''
              [(''symbol'', PStr (upper symbol)), (''side'', PStr (upper side)),
               (''type'', PStr ''LIMIT''), (''timeInForce'', PStr ''GTC''),
               (''quantity'', PFloat quantity), (''price'', PFloat price)]]
         else [])
    \<and> remote_calls (trace (snd (stop_limit_execute E symbol side quantity price stop_price w))) =
      remote_calls (trace w) @
        (if upper side \<in> {''BUY'', ''SELL''} then
           [Call c ''create_order''
              [(''symbol'', PStr (upper symbol)), (''side'', PStr (upper side)),
               (''type'', PStr ''STOP_LOSS_LIMIT''), (''quantity'', PFloat quantity),
               (''price'', PFloat price), (''stopPrice'', PFloat stop_price)]]
         else [])
    \<and> remote_calls (trace (snd (price_execute E symbol w))) =
      remote_calls (trace w) @
        [Call c ''futures_symbol_ticker'' [(''symbol'', PStr (upper symbol))]]
    \<and> remote_calls (trace (snd (cancel_execute E symbol order_id w))) =
      remote_calls (trace w) @
        [Call c ''futures_cancel_order''
           [(''symbol'', PStr (upper symbol)), (''orderId'', PInt order_id)]]
    \<and> remote_calls (trace (snd (orders_execute E given w))) =
      remote_calls (trace w) @
        [Call c ''futures_get_open_orders''
           [(''symbol'',
             (case given of
                Some s \<Rightarrow> if s \<noteq> [] then PStr (upper s) else PNone
              | None \<Rightarrow> PNone))]]
    \<and> remote_calls (trace (snd (position_execute E given w))) =
      remote_calls (trace w) @
        [Call c ''futures_position_information''
           [(''symbol'',
             (case given of
                Some s \<Rightarrow> if s \<noteq> [] then PStr (upper s) else PNone
              | None \<Rightarrow> PNone))]]"
proof -
  have sym: "opt_str (upper_if_given given) =
      (case given of Some s \<Rightarrow> if s \<noteq> [] then PStr (upper s) else PNone | None \<Rightarrow> PNone)"
    by (simp add: opt_str_def upper_if_given_def split: option.splits)
  show ?thesis
    unfolding market_execute_calls limit_execute_calls stop_limit_execute_calls
      price_execute_calls cancel_execute_calls orders_execute_calls position_execute_calls
      market_calls limit_calls stop_limit_calls
      price_calls[OF assms] cancel_calls[OF assms] orders_calls[OF assms]
      positions_calls[OF assms] sym
    by (simp add: assms market_kwargs_def limit_kwargs_def stop_limit_kwargs_def
          FUTURE_ORDER_TYPE_MARKET_def ORDER_TYPE_LIMIT_def ORDER_TYPE_STOP_LOSS_LIMIT_def
          TIME_IN_FORCE_GTC_def)
qed

theorem commands_send_upper_cased_symbol_witness:
  "client (svc opened_world) = Some demo_client
   \<and> remote_calls (trace (snd (market_execute demo_env ''btcUsdt'' ''buy'' (Fin 1) opened_world)))
      = [Call demo_client ''futures_create_order''
           [(''symbol'', PStr ''BTCUSDT''), (''side'', PStr ''BUY''),
            (''type'', PStr ''MARKET''), (''quantity'', PFloat (Fin 1))]]
   \<and> remote_calls (trace (snd (price_execute demo_env ''btcUsdt'' opened_world)))
      = [Call demo_client ''futures_symbol_ticker'' [(''symbol'', PStr ''BTCUSDT'')]]
   \<and> remote_calls (trace (snd (cancel_execute demo_env ''btcUsdt'' 7 opened_world)))
      = [Call demo_client ''futures_cancel_order''
           [(''symbol'', PStr ''BTCUSDT''), (''orderId'', PInt 7)]]
   \<and> remote_calls (trace (snd (orders_execute demo_env (Some ''btcUsdt'') opened_world)))
      = [Call demo_client ''futures_get_open_orders'' [(''symbol'', PStr ''BTCUSDT'')]]
   \<and> remote_calls (trace (snd (position_execute demo_env (Some ''btcUsdt'') opened_world)))
      = [Call demo_client ''futures_position_information'' [(''symbol'', PStr ''BTCUSDT'')]]"
proof -
  have opened: "client (svc opened_world) = Some demo_client"
    by (simp add: opened_world_def)
  have start: "remote_calls (trace opened_world) = []"
    by (simp add: opened_world_def remote_calls_def)
  have up: "upper ''btcUsdt'' = ''BTCUSDT''" "upper ''buy'' = ''BUY''"
    by (simp_all add: upper_def upper_char_def)
  from commands_send_upper_cased_symbol
    [OF opened, where E = demo_env and symbol = "''btcUsdt''" and side = "''buy''"
       and quantity = "Fin 1" and order_id = 7 and given = "Some ''btcUsdt''"]
  show ?thesis
    by (simp add: opened start up)
qed

text \<open>An empty optional symbol counts as none: no symbol is sent for it.\<close>

lemma empty_symbol_sent_as_none:
  "remote_calls (trace (snd (orders_execute demo_env (Some []) opened_world)))
     = [Call demo_client ''futures_get_open_orders'' [(''symbol'', PNone)]]
   \<and> PNone \<noteq> PStr (upper [])"
proof -
  have opened: "client (svc opened_world) = Some demo_client"
    by (simp add: opened_world_def)
  have start: "remote_calls (trace opened_world) = []"
    by (simp add: opened_world_def remote_calls_def)
  show ?thesis
    unfolding orders_execute_calls orders_calls[OF opened]
    by (simp add: start upper_if_given_def opt_str_def)
qed

section \<open>The position display\<close>

text \<open>
  Claim C8. Let the facade hold a client and the exchange answer the position query
  with a list of entries whose amounts can all be read. Then \<open>get_position_info\<close>
  returns that list as it is, and the block of the \<open>position\<close> command displays
  exactly the entries whose amount is not zero, in their order: it prints the one line
  \<open>No active positions\<close> when there is none, in particular when every entry has
  amount zero, and otherwise a table built from those entries alone.
\<close>

theorem position_display_keeps_nonzero_amounts:
  assumes opened: "client (svc w) = Some c"
    and returned:
      "respond E (trace w) c ''futures_position_information''
         [(''symbol'', opt_str (upper_if_given given))] = Inr (PList ps)"
    and readable: "\<forall>p\<in>set ps. \<exists>a. position_amount E p = Inr a"
  shows "fst (get_position_info E (upper_if_given given) w) = Inr (PList ps)
    \<and> active_positions E (PList ps)
        = Inr (filter (\<lambda>p. position_amount E p \<noteq> Inr (Fin 0)) ps)
    \<and> (\<exists>info.
          position_execute E given w =
            (let w1 = w\<lparr>trace := trace w @
                        [Call c ''futures_position_information''
                           [(''symbol'', opt_str (upper_if_given given))],
                         Log INFO False info]\<rparr>;
                 active = filter (\<lambda>p. position_amount E p \<noteq> Inr (Fin 0)) ps
             in if active = [] then
                  (Inr (),
                   w1\<lparr>trace := trace w1 @
                      [Print (nl @ ''[yellow]No active positions[/yellow]'')]\<rparr>)
                else
                  (case rows_of (position_row E) active of
                     Inl e \<Rightarrow> (Inl e, w1)
                   | Inr rows \<Rightarrow>
                       (Inr (),
                        w1\<lparr>trace := trace w1 @
                           [PrintTable ''Active Positions''
                              [''Symbol'', ''Amount'', ''Entry Price'', ''Mark Price'', ''PnL'']
                              rows]\<rparr>)))
        \<and> ((\<forall>p\<in>set ps. position_amount E p = Inr (Fin 0)) \<longrightarrow>
             position_execute E given w =
               (Inr (),
                w\<lparr>trace := trace w @
                   [Call c ''futures_position_information''
                      [(''symbol'', opt_str (upper_if_given given))],
                    Log INFO False info,
                    Print (nl @ ''[yellow]No active positions[/yellow]'')]\<rparr>)))"
proof -
  define info where "info = ''Position info retrieved for '' @
      (case upper_if_given given of
         Some s \<Rightarrow> if s \<noteq> [] then s else ''all symbols''
       | None \<Rightarrow> ''all symbols'')"
  define w1 where "w1 = w\<lparr>trace := trace w @
                        [Call c ''futures_position_information''
                           [(''symbol'', opt_str (upper_if_given given))],
                         Log INFO False info]\<rparr>"
  define active where "active = filter (\<lambda>p. position_amount E p \<noteq> Inr (Fin 0)) ps"
  have fetch: "get_position_info E (upper_if_given given) w = (Inr (PList ps), w1)"
    using opened returned
    by (simp add: get_position_info_def step_defs w1_def info_def)
  have act: "active_positions E (PList ps) = Inr active"
    unfolding active_def using keep_active_readable[OF readable]
    by (simp add: active_positions_def or_raise_def)
  have run: "position_execute E given w =
      (if active = [] then
         (Inr (), w1\<lparr>trace := trace w1 @
            [Print (nl @ ''[yellow]No active positions[/yellow]'')]\<rparr>)
       else
         (case rows_of (position_row E) active of
            Inl e \<Rightarrow> (Inl e, w1)
          | Inr rows \<Rightarrow>
              (Inr (),
               w1\<lparr>trace := trace w1 @
                  [PrintTable ''Active Positions''
                     [''Symbol'', ''Amount'', ''Entry Price'', ''Mark Price'', ''PnL'']
                     rows]\<rparr>)))"
    by (simp add: position_execute_def fetch act and_then_def emit_def split: sum.splits)
  have flat: "(\<forall>p\<in>set ps. position_amount E p = Inr (Fin 0)) \<longrightarrow>
             position_execute E given w =
               (Inr (),
                w\<lparr>trace := trace w @
                   [Call c ''futures_position_information''
                      [(''symbol'', opt_str (upper_if_given given))],
                    Log INFO False info,
                    Print (nl @ ''[yellow]No active positions[/yellow]'')]\<rparr>)"
  proof
    assume "\<forall>p\<in>set ps. position_amount E p = Inr (Fin 0)"
    then have "active = []" by (simp add: active_def)
    then show "position_execute E given w =
               (Inr (),
                w\<lparr>trace := trace w @
                   [Call c ''futures_position_information''
                      [(''symbol'', opt_str (upper_if_given given))],
                    Log INFO False info,
                    Print (nl @ ''[yellow]No active positions[/yellow]'')]\<rparr>)"
      by (simp add: run w1_def)
  qed
  have third: "position_execute E given w =
            (let w1 = w\<lparr>trace := trace w @
                        [Call c ''futures_position_information''
                           [(''symbol'', opt_str (upper_if_given given))],
                         Log INFO False info]\<rparr>;
                 active = filter (\<lambda>p. position_amount E p \<noteq> Inr (Fin 0)) ps
             in if active = [] then
                  (Inr (),
                   w1\<lparr>trace := trace w1 @
                      [Print (nl @ ''[yellow]No active positions[/yellow]'')]\<rparr>)
                else
                  (case rows_of (position_row E) active of
                     Inl e \<Rightarrow> (Inl e, w1)
                   | Inr rows \<Rightarrow>
                       (Inr (),
                        w1\<lparr>trace := trace w1 @
                           [PrintTable ''Active Positions''
                              [''Symbol'', ''Amount'', ''Entry Price'', ''Mark Price'', ''PnL'']
                              rows]\<rparr>)))"
    unfolding Let_def w1_def[symmetric] active_def[symmetric] by (rule run)
  from fetch act third flat show ?thesis
    unfolding active_def by (intro conjI exI[of _ info]) simp_all
qed

theorem position_display_keeps_nonzero_amounts_witness:
  "client (svc opened_world) = Some demo_client
   \<and> respond demo_env (trace opened_world) demo_client ''futures_position_information''
        [(''symbol'', opt_str (upper_if_given (Some ''btcusdt'')))]
      = Inr (PList [long_position, flat_position, bare_position])
   \<and> fst (get_position_info demo_env (upper_if_given (Some ''btcusdt'')) opened_world)
      = Inr (PList [long_position, flat_position, bare_position])
   \<and> active_positions demo_env (PList [long_position, flat_position, bare_position])
      = Inr [long_position]
   \<and> (\<exists>info.
        position_execute demo_env (Some ''btcusdt'') opened_world =
          (Inr (),
           opened_world\<lparr>trace :=
             [Call demo_client ''futures_position_information''
                [(''symbol'', PStr ''BTCUSDT'')],
              Log INFO False info,
              PrintTable ''Active Positions''
                [''Symbol'', ''Amount'', ''Entry Price'', ''Mark Price'', ''PnL'']
                [[PStr ''BTCUSDT'', PStr ''0.5'', PStr ''50000'', PStr ''50100'',
                  PStr ''[green]$<float>[/green]'']]]\<rparr>))"
proof -
  have row: "rows_of (position_row demo_env) [long_position] =
      Inr [[PStr ''BTCUSDT'', PStr ''0.5'', PStr ''50000'', PStr ''50100'',
            PStr ''[green]$<float>[/green]'']]"
    by (simp add: position_row_def or_raise_def long_position_def demo_env_def
          demo_float_of_str_def)
  have sym: "opt_str (upper_if_given (Some ''btcusdt'')) = PStr ''BTCUSDT''"
    by (simp add: opt_str_def upper_if_given_def upper_def upper_char_def)
  have start: "trace opened_world = []"
    by (simp add: opened_world_def)
  have opened: "client (svc opened_world) = Some demo_client"
    by (simp add: opened_world_def)
  have returned:
    "respond demo_env (trace opened_world) demo_client ''futures_position_information''
        [(''symbol'', opt_str (upper_if_given (Some ''btcusdt'')))]
      = Inr (PList [long_position, flat_position, bare_position])"
    by (simp add: demo_env_def demo_respond_def)
  have readable: "\<forall>p\<in>set [long_position, flat_position, bare_position].
      \<exists>a. position_amount demo_env p = Inr a"
    by (simp add: demo_amounts)
  from position_display_keeps_nonzero_amounts[OF opened returned readable]
  show ?thesis
    using opened returned
    by (simp add: demo_amounts row sym start Let_def del: rows_of.simps)
qed

text \<open>
  Claim C10. An entry without the field \<open>positionAmt\<close> has amount zero, read without
  an error, and the selection goes on as if the entry were not in the list, so it is
  never displayed. Every entry that is displayed comes from the list and carries the
  field, with a value that reads as a non-zero float.
\<close>

theorem missing_amount_excluded_without_error:
  "(map_of kvs ''positionAmt'' = None \<longrightarrow>
       position_amount E (PDict kvs) = Inr (Fin 0)
     \<and> active_positions E (PList (xs @ PDict kvs # ys)) = active_positions E (PList (xs @ ys)))
   \<and> (active_positions E (PList ps) = Inr acts \<longrightarrow>
        (\<forall>p\<in>set acts. p \<in> set ps
           \<and> (\<exists>kvs' v a. p = PDict kvs' \<and> map_of kvs' ''positionAmt'' = Some v
                 \<and> float_of E v = Inr a \<and> a \<noteq> Fin 0)))
   \<and> (active_positions E (PList ps) = Inr acts \<and> map_of kvs ''positionAmt'' = None \<longrightarrow>
        PDict kvs \<notin> set acts)"
proof -
  have first: "map_of kvs ''positionAmt'' = None \<longrightarrow>
       position_amount E (PDict kvs) = Inr (Fin 0)
     \<and> active_positions E (PList (xs @ PDict kvs # ys)) = active_positions E (PList (xs @ ys))"
    using keep_active_skips[OF missing_amount_is_zero, of kvs E xs ys]
    by (simp add: missing_amount_is_zero active_positions_def or_raise_def)
  have second: "\<forall>p\<in>set acts. p \<in> set ps
           \<and> (\<exists>kvs' v a. p = PDict kvs' \<and> map_of kvs' ''positionAmt'' = Some v
                 \<and> float_of E v = Inr a \<and> a \<noteq> Fin 0)"
    if run: "active_positions E (PList ps) = Inr acts"
  proof
    fix p assume p: "p \<in> set acts"
    from run have k: "keep_active E ps = Inr acts"
      by (simp add: active_positions_def or_raise_def)
    from keep_active_filter[OF k] p have in_ps: "p \<in> set ps"
      and nz: "position_amount E p \<noteq> Inr (Fin 0)"
      and rd: "\<exists>a. position_amount E p = Inr a"
      by auto
    from rd obtain a where a: "position_amount E p = Inr a" by blast
    with nz have "a \<noteq> Fin 0" by simp
    from present_amount[OF a this] in_ps \<open>a \<noteq> Fin 0\<close>
    show "p \<in> set ps
           \<and> (\<exists>kvs' v a. p = PDict kvs' \<and> map_of kvs' ''positionAmt'' = Some v
                 \<and> float_of E v = Inr a \<and> a \<noteq> Fin 0)"
      by blast
  qed
  have third: "PDict kvs \<notin> set acts"
    if run: "active_positions E (PList ps) = Inr acts"
      and missing: "map_of kvs ''positionAmt'' = None"
  proof
    assume "PDict kvs \<in> set acts"
    with second[OF run] obtain kvs' v where "PDict kvs = PDict kvs'"
      "map_of kvs' ''positionAmt'' = Some v" by blast
    with missing show False by simp
  qed
  from first second third show ?thesis by blast
qed

theorem missing_amount_excluded_without_error_witness:
  "map_of [(''symbol'', PStr ''XRPUSDT'')] ''positionAmt'' = None
   \<and> position_amount demo_env (PDict [(''symbol'', PStr ''XRPUSDT'')]) = Inr (Fin 0)
   \<and> active_positions demo_env
        (PList ([long_position, flat_position] @ PDict [(''symbol'', PStr ''XRPUSDT'')] # []))
      = Inr [long_position]
   \<and> PDict [(''symbol'', PStr ''XRPUSDT'')] \<notin> set [long_position]"
proof -
  have missing: "map_of [(''symbol'', PStr ''XRPUSDT'')] ''positionAmt'' = None"
    by simp
  have run: "active_positions demo_env (PList [long_position, flat_position]) = Inr [long_position]"
    by (simp add: active_positions_def or_raise_def demo_amounts)
  have run3: "active_positions demo_env
      (PList ([long_position, flat_position] @ PDict [(''symbol'', PStr ''XRPUSDT'')] # []))
      = Inr [long_position]"
    using demo_amounts by (simp add: active_positions_def or_raise_def bare_position_def)
  from missing_amount_excluded_without_error
    [of "[(''symbol'', PStr ''XRPUSDT'')]" demo_env "[long_position, flat_position]" "[]"
        "[long_position, flat_position] @ PDict [(''symbol'', PStr ''XRPUSDT'')] # []"
        "[long_position]"]
  show ?thesis
    using missing run run3 by simp
qed

end
